theory Spec2Isabelle
  imports Complex_Main "HOL-Library.Sublist"
begin

section \<open>Values and the calls issued to the INTERCONNECT session\<close>

text \<open>
  The class \<open>PNN\<close> of \<^verbatim>\<open>simulation/python/Classes.py\<close> holds the parameters of a
  photonic neural network and replays a construction script against a session handle
  \<open>process\<close>.  The handle is external: the script only calls its methods and never reads
  a result back, so a run is the list of calls it issues, in order.

  Arguments of the calls are numbers, booleans and strings.  Python floats are modelled
  by exact reals: products are not rounded, and an integer is converted to a float
  exactly, also where it is beyond the float range and Python refuses the conversion.  The
  integer arguments (positions, port counts) are unbounded.
\<close>

datatype val = VBool bool | VInt int | VFloat real | VStr string

datatype call =
    Switchtolayout
  | Deleteall
  | Addelement string
  | Set string val
  | Setnamed string string val
  | Select string
  | Connect string string string string
  | Disconnect string string string string
  | Flipelement string

type_synonym process = "call list"



section \<open>The configuration record\<close>

text \<open>
  The attributes of an instance.  The numeric and string attributes have the types the
  class docstring gives them; \<open>model\<close> is optional because the constructor accepts and
  stores \<open>None\<close>.  The five toggles hold any value: the setters store what they are given
  (\<open>output(ToggleOptFilter=0)\<close> stores \<open>0\<close>), and the scripts test them by identity,
  \<open>is True\<close> and \<open>is False\<close>, which only the booleans themselves pass.  What an instance
  carries beyond these attributes is the extension of the record.
\<close>

record PNN =
  model :: "string option"
  taps :: int
  DelayUnitLen :: real
  unitsNextTap :: int
  WvgLoss :: real
  FiberLen :: real
  PRBSType :: string
  PulseAmp :: real
  RiseTime :: real
  FallTime :: real
  MZMILoss :: real
  ToggleBitOp :: val
  bitrate :: real
  numofSamples :: real
  timeWindow :: real
  OutputType :: string
  ToggleAWGN :: val
  NoisePSD :: real
  ToggleOptFilter :: val
  OptFilterBand :: real
  PDResponsivity :: real
  PDDarkCurrent :: real
  PDTNoise :: real
  TogglePDTNoise :: val
  TogglePDSNoise :: val

datatype error = NameError string | TypeError | AttributeError | OverflowError

text \<open>A method that mutates \<open>self\<close> and may raise returns the instance as the raise
  (or the normal return) leaves it, together with the exception, if any.\<close>

type_synonym 'a outcome = "'a \<times> error option"

subsection \<open>Constructor and setter methods\<close>

text \<open>How an f-string renders an optional name.\<close>

fun format_name :: "string option \<Rightarrow> string" where
  "format_name None = ''None''"
| "format_name (Some s) = s"

text \<open>\<open>__init__\<close>: the class-level defaults are the attributes an instance starts with;
  the five arguments are stored after the model name has been checked.\<close>

definition PNN_init :: "string option \<Rightarrow> int \<Rightarrow> real \<Rightarrow> int \<Rightarrow> real \<Rightarrow> error + PNN" where
  "PNN_init model' taps' DelayUnitLen' unitsNextTap' WvgLoss' =
     (if model' \<notin> set [None, Some ''parallel'', Some ''series'']
      then Inl (NameError (''model: No model type named '' @ format_name model' @ ''. Use parallel or series.''))
      else Inr \<lparr> model = model', taps = taps', DelayUnitLen = DelayUnitLen',
                 unitsNextTap = unitsNextTap', WvgLoss = WvgLoss',
                 FiberLen = 1000, PRBSType = ''PRBS'', PulseAmp = 1, RiseTime = 0.05,
                 FallTime = 0.05, MZMILoss = 0, ToggleBitOp = VBool True,
                 bitrate = 10000000000, numofSamples = 8192, timeWindow = 5.12 / 1000000000,
                 OutputType = ''connected'', ToggleAWGN = VBool False, NoisePSD = 2 / 10 ^ 20,
                 ToggleOptFilter = VBool False, OptFilterBand = 25000000000,
                 PDResponsivity = 1, PDDarkCurrent = 0, PDTNoise = 1 / 10 ^ 22,
                 TogglePDTNoise = VBool False, TogglePDSNoise = VBool False \<rparr>)"

text \<open>The constructor's default arguments:
  \<^verbatim>\<open>model='parallel', taps=4, DelayUnitLen=100e-6, unitsNextTap=1, WvgLoss=0\<close>.\<close>

definition PNN_init_default :: "error + PNN" where
  "PNN_init_default = PNN_init (Some ''parallel'') 4 (100 / 1000000) 1 0"

definition general ::
  "string option \<Rightarrow> int option \<Rightarrow> real option \<Rightarrow> int option \<Rightarrow> real option
     \<Rightarrow> 'a PNN_scheme \<Rightarrow> 'a PNN_scheme outcome" where
  "general model' taps' DelayUnitLen' unitsNextTap' WvgLoss' self =
     (if model' \<notin> set [None, Some ''parallel'', Some ''series'']
      then (self, Some (NameError (''model: No model type named '' @ format_name model' @ ''. Use parallel or series.'')))
      else
        let self = (case model' of None \<Rightarrow> self | Some m \<Rightarrow> self\<lparr>model := Some m\<rparr>);
            self = (case taps' of None \<Rightarrow> self | Some t \<Rightarrow> self\<lparr>taps := t\<rparr>);
            self = (case DelayUnitLen' of None \<Rightarrow> self | Some d \<Rightarrow> self\<lparr>DelayUnitLen := d\<rparr>);
            self = (case unitsNextTap' of None \<Rightarrow> self | Some u \<Rightarrow> self\<lparr>unitsNextTap := u\<rparr>);
            self = (case WvgLoss' of None \<Rightarrow> self | Some w \<Rightarrow> self\<lparr>WvgLoss := w\<rparr>)
        in (self, None))"

definition transmission ::
  "real option \<Rightarrow> string option \<Rightarrow> real option \<Rightarrow> real option \<Rightarrow> real option \<Rightarrow> real option
     \<Rightarrow> val option \<Rightarrow> 'a PNN_scheme \<Rightarrow> 'a PNN_scheme" where
  "transmission FiberLen' PRBSType' PulseAmp' RiseTime' FallTime' MZMILoss' ToggleBitOp' self =
     (let self = (case FiberLen' of None \<Rightarrow> self | Some x \<Rightarrow> self\<lparr>FiberLen := x\<rparr>);
          self = (case PRBSType' of None \<Rightarrow> self | Some x \<Rightarrow> self\<lparr>PRBSType := x\<rparr>);
          self = (case PulseAmp' of None \<Rightarrow> self | Some x \<Rightarrow> self\<lparr>PulseAmp := x\<rparr>);
          self = (case RiseTime' of None \<Rightarrow> self | Some x \<Rightarrow> self\<lparr>RiseTime := x\<rparr>);
          self = (case FallTime' of None \<Rightarrow> self | Some x \<Rightarrow> self\<lparr>FallTime := x\<rparr>);
          self = (case MZMILoss' of None \<Rightarrow> self | Some x \<Rightarrow> self\<lparr>MZMILoss := x\<rparr>);
          self = (case ToggleBitOp' of None \<Rightarrow> self | Some x \<Rightarrow> self\<lparr>ToggleBitOp := x\<rparr>)
      in self)"

definition simulation ::
  "real option \<Rightarrow> real option \<Rightarrow> real option \<Rightarrow> 'a PNN_scheme \<Rightarrow> 'a PNN_scheme" where
  "simulation bitrate' numofSamples' timeWindow' self =
     (let self = (case bitrate' of None \<Rightarrow> self | Some x \<Rightarrow> self\<lparr>bitrate := x\<rparr>);
          self = (case numofSamples' of None \<Rightarrow> self | Some x \<Rightarrow> self\<lparr>numofSamples := x\<rparr>);
          self = (case timeWindow' of None \<Rightarrow> self | Some x \<Rightarrow> self\<lparr>timeWindow := x\<rparr>)
      in self)"

definition output_method ::
  "string option \<Rightarrow> val option \<Rightarrow> real option \<Rightarrow> val option \<Rightarrow> real option
     \<Rightarrow> 'a PNN_scheme \<Rightarrow> 'a PNN_scheme outcome" where
  "output_method OutputType' ToggleAWGN' NoisePSD' ToggleOptFilter' OptFilterBand' self =
     (if OutputType' \<notin> set [None, Some ''connected'', Some ''disconnected'', Some ''mixed'']
      then (self, Some (NameError (''OutputType: No output type named '' @ format_name OutputType'
                                   @ ''. Use connected, disconnected or mixed.'')))
      else
        let self = (case OutputType' of None \<Rightarrow> self | Some x \<Rightarrow> self\<lparr>OutputType := x\<rparr>);
            self = (case ToggleAWGN' of None \<Rightarrow> self | Some x \<Rightarrow> self\<lparr>ToggleAWGN := x\<rparr>);
            self = (case NoisePSD' of None \<Rightarrow> self | Some x \<Rightarrow> self\<lparr>NoisePSD := x\<rparr>);
            self = (case ToggleOptFilter' of None \<Rightarrow> self | Some x \<Rightarrow> self\<lparr>ToggleOptFilter := x\<rparr>);
            self = (case OptFilterBand' of None \<Rightarrow> self | Some x \<Rightarrow> self\<lparr>OptFilterBand := x\<rparr>)
        in (self, None))"

definition photoreceptor ::
  "real option \<Rightarrow> real option \<Rightarrow> real option \<Rightarrow> val option \<Rightarrow> val option
     \<Rightarrow> 'a PNN_scheme \<Rightarrow> 'a PNN_scheme" where
  "photoreceptor PDResponsivity' PDDarkCurrent' PDTNoise' TogglePDTNoise' TogglePDSNoise' self =
     (let self = (case PDResponsivity' of None \<Rightarrow> self | Some x \<Rightarrow> self\<lparr>PDResponsivity := x\<rparr>);
          self = (case PDDarkCurrent' of None \<Rightarrow> self | Some x \<Rightarrow> self\<lparr>PDDarkCurrent := x\<rparr>);
          self = (case PDTNoise' of None \<Rightarrow> self | Some x \<Rightarrow> self\<lparr>PDTNoise := x\<rparr>);
          self = (case TogglePDTNoise' of None \<Rightarrow> self | Some x \<Rightarrow> self\<lparr>TogglePDTNoise := x\<rparr>);
          self = (case TogglePDSNoise' of None \<Rightarrow> self | Some x \<Rightarrow> self\<lparr>TogglePDSNoise := x\<rparr>)
      in self)"

subsection \<open>Reflective access: \<open>setAttributes\<close> and \<open>getAttributes\<close>\<close>

text \<open>
  \<open>setAttributes\<close> and \<open>getAttributes\<close> go through \<open>setattr\<close> and \<open>getattr\<close>, which
  take any attribute name and any value.  For them the instance is its attribute
  dictionary, and a value is any Python object of the kinds below.  \<open>cls\<close> stands for what
  the class and its bases provide under a name (the class-level defaults, the methods,
  what \<open>object\<close> defines).
\<close>

datatype pyval = PNone | PBool bool | PInt int | PFloat real | PStr string | PMethod string

type_synonym attrs = "string \<rightharpoonup> pyval"

text \<open>The class body's data attributes.\<close>

definition PNN_class_attrs :: "(string \<times> pyval) list" where
  "PNN_class_attrs =
    [(''FiberLen'', PFloat 1000), (''PRBSType'', PStr ''PRBS''), (''PulseAmp'', PInt 1),
     (''RiseTime'', PFloat 0.05), (''FallTime'', PFloat 0.05), (''MZMILoss'', PInt 0),
     (''ToggleBitOp'', PBool True),
     (''bitrate'', PFloat 10000000000), (''numofSamples'', PInt 8192),
     (''timeWindow'', PFloat (5.12 / 1000000000)),
     (''OutputType'', PStr ''connected''), (''ToggleAWGN'', PBool False),
     (''NoisePSD'', PFloat (2 / 10 ^ 20)), (''ToggleOptFilter'', PBool False),
     (''OptFilterBand'', PFloat 25000000000),
     (''PDResponsivity'', PInt 1), (''PDDarkCurrent'', PInt 0),
     (''PDTNoise'', PFloat (1 / 10 ^ 22)), (''TogglePDTNoise'', PBool False),
     (''TogglePDSNoise'', PBool False)]"

text \<open>The names \<open>object\<close> guards with a data descriptor: they are never stored in the
  instance dictionary, and assigning one of the values above to them raises.\<close>

definition data_descriptors :: "string list" where
  "data_descriptors = [''__class__'', ''__dict__'', ''__weakref__'']"

definition setattr :: "attrs \<Rightarrow> string \<Rightarrow> pyval \<Rightarrow> error + attrs" where
  "setattr self key v =
     (if key = ''__weakref__'' then Inl AttributeError
      else if key \<in> set data_descriptors then Inl TypeError
      else Inr (self(key \<mapsto> v)))"

text \<open>\<open>for key, value in kwargs.items(): setattr(self,key,value)\<close>: the keyword
  arguments in order; a raise ends the loop and keeps what was already stored.\<close>

fun setattr_each :: "(string \<times> pyval) list \<Rightarrow> attrs \<Rightarrow> attrs outcome" where
  "setattr_each [] self = (self, None)"
| "setattr_each ((key, v) # kwargs) self =
     (case setattr self key v of
        Inl e \<Rightarrow> (self, Some e)
      | Inr self' \<Rightarrow> setattr_each kwargs self')"

text \<open>\<open>def setAttributes(self, **kwargs)\<close>: a keyword named \<open>self\<close> collides with the
  method's own first parameter, and the call raises \<open>TypeError\<close> before the body runs.\<close>

definition setAttributes :: "(string \<times> pyval) list \<Rightarrow> attrs \<Rightarrow> attrs outcome" where
  "setAttributes kwargs self =
     (if ''self'' \<in> fst ` set kwargs then (self, Some TypeError)
      else setattr_each kwargs self)"

text \<open>Attribute lookup: the instance dictionary, then the class; a data descriptor of the
  class comes first.\<close>

definition find_attr :: "attrs \<Rightarrow> attrs \<Rightarrow> string \<Rightarrow> pyval option" where
  "find_attr cls self name =
     (if name \<in> set data_descriptors then cls name
      else (case self name of Some v \<Rightarrow> Some v | None \<Rightarrow> cls name))"

text \<open>\<open>getattr(self, attr, None)\<close>.\<close>

definition getattr :: "attrs \<Rightarrow> attrs \<Rightarrow> string \<Rightarrow> pyval \<Rightarrow> pyval" where
  "getattr cls self name dflt = (case find_attr cls self name of Some v \<Rightarrow> v | None \<Rightarrow> dflt)"

definition getAttributes :: "attrs \<Rightarrow> string list \<Rightarrow> attrs \<Rightarrow> pyval list" where
  "getAttributes cls kwargs self = map (\<lambda>attr. getattr cls self attr PNone) kwargs"

text \<open>The two fields the setters validate, read from the attribute dictionary.\<close>

definition model_valid :: "attrs \<Rightarrow> attrs \<Rightarrow> bool" where
  "model_valid cls self = (find_attr cls self ''model'' \<in> set [Some (PStr ''parallel''), Some (PStr ''series'')])"

definition OutputType_valid :: "attrs \<Rightarrow> attrs \<Rightarrow> bool" where
  "OutputType_valid cls self =
     (find_attr cls self ''OutputType''
        \<in> set [Some (PStr ''connected''), Some (PStr ''disconnected''), Some (PStr ''mixed'')])"

section \<open>The scripts\<close>

subsection \<open>\<open>str(i)\<close> for an integer\<close>

definition digit :: "nat \<Rightarrow> char" where
  "digit n = ''0123456789'' ! n"

fun str_nat :: "nat \<Rightarrow> string" where
  "str_nat n = (if n < 10 then [digit n] else str_nat (n div 10) @ [digit (n mod 10)])"

declare str_nat.simps [simp del]

definition str :: "int \<Rightarrow> string" where
  "str i = (if i < 0 then CHR ''-'' # str_nat (nat (- i)) else str_nat (nat i))"

subsection \<open>Statements that may raise\<close>

text \<open>
  A statement of a script evaluates its arguments and issues one call.  The one argument
  whose evaluation raises on a float is the square \<open>(self.PDTNoise)**2\<close>: Python's \<open>**\<close>
  raises \<open>OverflowError\<close> when the result is beyond the float range, that is, when the exact
  square is at least the midpoint between the largest float, \<open>2^1024 - 2^971\<close>, and
  \<open>2^1024\<close>.  A script is then a list of statements, each a call or a raise; the calls
  issued are those before the first raise.
\<close>

type_synonym stmt = "error + call"

definition calls :: "call list \<Rightarrow> stmt list" where
  "calls cs = map Inr cs"

fun issued :: "stmt list \<Rightarrow> call list" where
  "issued [] = []"
| "issued (Inr c # ss) = c # issued ss"
| "issued (Inl e # ss) = []"

fun raised :: "stmt list \<Rightarrow> error option" where
  "raised [] = None"
| "raised (Inr c # ss) = raised ss"
| "raised (Inl e # ss) = Some e"

definition float_overflow :: "real \<Rightarrow> bool" where
  "float_overflow r = (2 ^ 1024 - 2 ^ 970 \<le> \<bar>r\<bar>)"

text \<open>\<open>x ** 2\<close> for a float \<open>x\<close>.\<close>

definition pow2 :: "real \<Rightarrow> error + real" where
  "pow2 x = (if float_overflow (x ^ 2) then Inl OverflowError else Inr (x ^ 2))"

text \<open>A statement whose argument may raise.\<close>

definition with_arg :: "error + 'a \<Rightarrow> ('a \<Rightarrow> call) \<Rightarrow> stmt" where
  "with_arg x f = (case x of Inl e \<Rightarrow> Inl e | Inr v \<Rightarrow> Inr (f v))"

subsection \<open>\<open>update\<close>\<close>

text \<open>\<open>range(1, n)\<close> for integers.\<close>

definition range1 :: "int \<Rightarrow> int list" where
  "range1 n = [1..n - 1]"

definition update_OutPIN_i :: "'a PNN_scheme \<Rightarrow> int \<Rightarrow> stmt list" where
  "update_OutPIN_i self i =
     calls
      [Setnamed (''OutPIN_'' @ str i) ''enable thermal noise'' (TogglePDTNoise self),
       Setnamed (''OutPIN_'' @ str i) ''enable shot noise'' (TogglePDSNoise self),
       Setnamed (''OutPIN_'' @ str i) ''responsivity'' (VFloat (PDResponsivity self)),
       Setnamed (''OutPIN_'' @ str i) ''dark current'' (VFloat (PDDarkCurrent self))]
     @ (if TogglePDTNoise self = VBool True
        then [with_arg (pow2 (PDTNoise self))
                (\<lambda>v. Setnamed (''OutPIN_'' @ str i) ''thermal noise'' (VFloat v))]
        else [])"

definition update_script :: "'a PNN_scheme \<Rightarrow> stmt list" where
  "update_script self =
     calls
      [Switchtolayout,
       Setnamed ''::Root Element'' ''bitrate'' (VFloat (bitrate self)),
       Setnamed ''::Root Element'' ''time window'' (VFloat (timeWindow self)),
       Setnamed ''::Root Element'' ''number of samples'' (VFloat (numofSamples self))]
     @ (if model self = Some ''parallel'' then
          calls
           [Setnamed ''DelayLine_1'' ''length'' (VFloat (DelayUnitLen self)),
            Setnamed ''DelayLine_2'' ''length'' (VFloat (real_of_int (1 + unitsNextTap self) * DelayUnitLen self)),
            Setnamed ''DelayLine_3'' ''length'' (VFloat (real_of_int (1 + 2 * unitsNextTap self) * DelayUnitLen self)),
            Setnamed ''DelayLine_4'' ''length'' (VFloat (real_of_int (1 + 3 * unitsNextTap self) * DelayUnitLen self))]
        else [])
     @ calls
        [Setnamed ''fiber_AMP'' ''gain'' (VFloat (FiberLen self * (0.17 / 1000))),
         Setnamed ''Fiber'' ''length'' (VFloat (FiberLen self)),
         Setnamed ''Pulse Generator'' ''amplitude'' (VFloat (PulseAmp self)),
         Setnamed ''PRBS'' ''output'' (VStr (PRBSType self)),
         Setnamed ''Pulse Generator'' ''rise period'' (VFloat (RiseTime self)),
         Setnamed ''Pulse Generator'' ''fall period'' (VFloat (FallTime self)),
         Setnamed ''MZM'' ''insertion loss'' (VFloat (MZMILoss self))]
     @ (if OutputType self = ''disconnected'' then
          concat (map (update_OutPIN_i self) (range1 (taps self + 1)))
        else
          calls
           [Setnamed ''OutPIN'' ''enable thermal noise'' (TogglePDTNoise self),
            Setnamed ''OutPIN'' ''enable shot noise'' (TogglePDSNoise self),
            Setnamed ''OutPIN'' ''responsivity'' (VFloat (PDResponsivity self)),
            Setnamed ''OutPIN'' ''dark current'' (VFloat (PDDarkCurrent self))]
          @ (if TogglePDTNoise self = VBool True
             then [with_arg (pow2 (PDTNoise self))
                     (\<lambda>v. Setnamed ''OutPIN'' ''thermal noise'' (VFloat v))]
             else []))
     @ (if ToggleAWGN self = VBool True
        then calls [Setnamed ''AWGN_source'' ''power spectral density'' (VFloat (NoisePSD self))]
        else [])
     @ (if ToggleOptFilter self = VBool True
        then calls [Setnamed ''Optical Filter'' ''bandwidth'' (VFloat (OptFilterBand self))]
        else [])"

text \<open>The calls a run of \<open>update\<close> issues, and the exception it ends with, if any.\<close>

definition update_calls :: "'a PNN_scheme \<Rightarrow> call list" where
  "update_calls self = issued (update_script self)"


text \<open>The method: the instance is returned as the script leaves it, the calls are
  appended to the session's log.\<close>

definition update :: "'a PNN_scheme \<Rightarrow> process \<Rightarrow> 'a PNN_scheme \<times> process" where
  "update self process = (self, process @ update_calls self)"

subsection \<open>\<open>mount\<close>\<close>

text \<open>The script of \<open>mount\<close>, cut at its branches.  First the transmitter, the fibre and
  the monitors, which every variant has.\<close>

definition mount_front :: "'a PNN_scheme \<Rightarrow> call list" where
  "mount_front self =
   [Switchtolayout,
    Deleteall,
    Setnamed ''::Root Element'' ''bitrate'' (VFloat (bitrate self)),
    Setnamed ''::Root Element'' ''time window'' (VFloat (timeWindow self)),
    Setnamed ''::Root Element'' ''number of samples'' (VFloat (numofSamples self)),
    Addelement ''Optical Linear Fiber'',
    Set ''x position'' (VInt (-600)),
    Set ''y position'' (VInt (-200)),
    Set ''length'' (VFloat (FiberLen self)),
    Set ''attenuation'' (VFloat (0.17 / 1000)),
    Set ''name'' (VStr ''Fiber''),
    Addelement ''Optical Amplifier'',
    Set ''enable noise'' (VBool False),
    Set ''x position'' (VInt (-450)),
    Set ''y position'' (VInt (-200)),
    Set ''gain'' (VFloat (FiberLen self * (0.17 / 1000))),
    Set ''name'' (VStr ''fiber_AMP''),
    Addelement ''Optical Attenuator'',
    Set ''x position'' (VInt (-300)),
    Set ''y position'' (VInt (-200)),
    Set ''name'' (VStr ''VOA''),
    Addelement ''Mach-Zehnder Modulator'',
    Set ''x position'' (VInt (-750)),
    Set ''y position'' (VInt (-200)),
    Set ''modulator type'' (VStr ''balanced single drive''),
    Set ''insertion loss'' (VFloat (MZMILoss self)),
    Set ''name'' (VStr ''MZM''),
    Addelement ''CW Laser'',
    Set ''x position'' (VInt (-1000)),
    Set ''y position'' (VInt (-200)),
    Set ''name'' (VStr ''CWL''),
    Addelement ''NRZ Pulse Generator'',
    Set ''x position'' (VInt (-900)),
    Set ''y position'' (VInt (-400)),
    Set ''amplitude'' (VFloat (PulseAmp self)),
    Set ''rise period'' (VFloat (RiseTime self)),
    Set ''fall period'' (VFloat (FallTime self)),
    Set ''name'' (VStr ''Pulse Generator''),
    Addelement ''PRBS Generator'',
    Set ''x position'' (VInt (-1250)),
    Set ''y position'' (VInt (-400)),
    Set ''output'' (VStr (PRBSType self)),
    Set ''name'' (VStr ''PRBS''),
    Addelement ''Optical Oscilloscope'',
    Set ''x position'' (VInt (-400)),
    Set ''y position'' (VInt (-300)),
    Addelement ''Optical Oscilloscope'',
    Set ''x position'' (VInt (-600)),
    Set ''y position'' (VInt (-300)),
    Addelement ''Optical Oscilloscope'',
    Set ''x position'' (VInt (-225)),
    Set ''y position'' (VInt (-300)),
    Set ''name'' (VStr ''VOA_OOSC''),
    Addelement ''Oscilloscope'',
    Set ''x position'' (VInt (-750)),
    Set ''y position'' (VInt (-500)),
    Addelement ''Logic Analyzer'',
    Set ''x position'' (VInt (-1100)),
    Set ''y position'' (VInt (-500)),
    Connect ''CWL'' ''output'' ''MZM'' ''input'',
    Connect ''MZM'' ''output'' ''Fiber'' ''port 1'',
    Connect ''Fiber'' ''port 2'' ''fiber_AMP'' ''input'',
    Connect ''fiber_AMP'' ''output'' ''VOA'' ''port 1'',
    Connect ''Pulse Generator'' ''output'' ''MZM'' ''modulation 1'',
    Connect ''PRBS'' ''output'' ''LGCA_1'' ''input'',
    Connect ''Pulse Generator'' ''output'' ''OSC_1'' ''input'',
    Connect ''MZM'' ''output'' ''OOSC_2'' ''input'',
    Connect ''Fiber'' ''port 2'' ''OOSC_1'' ''input'',
    Connect ''VOA'' ''port 2'' ''VOA_OOSC'' ''input'']"

text \<open>The fork, the delay and the XOR operator added when \<open>ToggleBitOp is True\<close>.\<close>

definition mount_BitOp :: "call list" where
  "mount_BitOp =
   [Addelement ''Fork 1xN'',
    Set ''x position'' (VInt (-1050)),
    Set ''y position'' (VInt (-415)),
    Set ''number of ports'' (VInt 3),
    Addelement ''Data Delay'',
    Set ''x position'' (VInt (-925)),
    Set ''y position'' (VInt (-575)),
    Set ''delay'' (VInt 1),
    Addelement ''Digital Logic'',
    Set ''x position'' (VInt (-800)),
    Set ''y position'' (VInt (-625)),
    Set ''logic operator'' (VStr ''XOR''),
    Addelement ''Logic Analyzer'',
    Set ''x position'' (VInt (-1000)),
    Set ''y position'' (VInt (-750)),
    Addelement ''Logic Analyzer'',
    Set ''x position'' (VInt (-800)),
    Set ''y position'' (VInt (-750)),
    Addelement ''Logic Analyzer'',
    Set ''x position'' (VInt (-650)),
    Set ''y position'' (VInt (-750)),
    Connect ''PRBS'' ''output'' ''FORK_1'' ''input'',
    Connect ''FORK_1'' ''output 1'' ''LOGIC_1'' ''input 1'',
    Connect ''FORK_1'' ''output 2'' ''DLY_1'' ''input'',
    Connect ''FORK_1'' ''output 3'' ''Pulse Generator'' ''modulation'',
    Connect ''DLY_1'' ''output'' ''LOGIC_1'' ''input 2'',
    Connect ''FORK_1'' ''output 1'' ''LGCA_2'' ''input'',
    Connect ''DLY_1'' ''output'' ''LGCA_3'' ''input'',
    Connect ''LOGIC_1'' ''output'' ''LGCA_4'' ''input'']"

definition mount_scopes :: "call list" where
  "mount_scopes =
   [Addelement ''Optical Oscilloscope'',
    Set ''x position'' (VInt 350),
    Set ''y position'' (VInt (-500)),
    Addelement ''Optical Oscilloscope'',
    Set ''x position'' (VInt 350),
    Set ''y position'' (VInt (-400)),
    Addelement ''Optical Oscilloscope'',
    Set ''x position'' (VInt 350),
    Set ''y position'' (VInt (-200)),
    Addelement ''Optical Oscilloscope'',
    Set ''x position'' (VInt 350),
    Set ''y position'' (VInt (-100))]"

text \<open>The parallel model: the splitting tree of three cells, the four delay lines, the
  four output cells with their monitors and terminations.\<close>

definition mount_tree :: "'a PNN_scheme \<Rightarrow> call list" where
  "mount_tree self =
   [Addelement ''MZI Ideal Cell'',
    Set ''x position'' (VInt (-100)),
    Set ''y position'' (VInt (-300)),
    Set ''Waveguide neff'' (VFloat 2.445),
    Set ''Waveguide ng'' (VFloat 4.19),
    Set ''WvgLoss'' (VFloat (WvgLoss self)),
    Addelement ''MZI Ideal Cell'',
    Set ''x position'' (VInt 200),
    Set ''y position'' (VInt (-400)),
    Set ''Waveguide neff'' (VFloat 2.445),
    Set ''Waveguide ng'' (VFloat 4.19),
    Set ''WvgLoss'' (VFloat (WvgLoss self)),
    Addelement ''MZI Ideal Cell'',
    Set ''x position'' (VInt 200),
    Set ''y position'' (VInt (-200)),
    Set ''Waveguide neff'' (VFloat 2.445),
    Set ''Waveguide ng'' (VFloat 4.19),
    Set ''WvgLoss'' (VFloat (WvgLoss self)),
    Addelement ''Termination Mirror'',
    Set ''x position'' (VInt (-200)),
    Set ''y position'' (VInt (-100)),
    Flipelement ''TERM_1'',
    Addelement ''Termination Mirror'',
    Set ''x position'' (VInt 0),
    Set ''y position'' (VInt (-100)),
    Flipelement ''TERM_2'',
    Addelement ''Termination Mirror'',
    Set ''x position'' (VInt 0),
    Set ''y position'' (VInt (-500)),
    Flipelement ''TERM_3'',
    Connect ''IDEAL_CELL_1'' ''port 3'' ''IDEAL_CELL_2'' ''port 2'',
    Connect ''IDEAL_CELL_1'' ''port 4'' ''IDEAL_CELL_3'' ''port 1'',
    Connect ''TERM_1'' ''port'' ''IDEAL_CELL_1'' ''port 2'',
    Connect ''TERM_2'' ''port'' ''IDEAL_CELL_3'' ''port 2'',
    Connect ''TERM_3'' ''port'' ''IDEAL_CELL_2'' ''port 1'',
    Setnamed ''IDEAL_CELL_1'' ''Theta 1'' (VFloat (pi / 2)),
    Setnamed ''IDEAL_CELL_2'' ''Theta 1'' (VFloat (pi / 2)),
    Setnamed ''IDEAL_CELL_3'' ''Theta 1'' (VFloat (pi / 2)),
    Connect ''VOA'' ''port 2'' ''IDEAL_CELL_1'' ''port 1'']"

definition mount_delay_lines :: "'a PNN_scheme \<Rightarrow> call list" where
  "mount_delay_lines self =
   [Addelement ''Straight Waveguide'',
    Set ''x position'' (VInt 500),
    Set ''y position'' (VInt (-450)),
    Set ''length'' (VFloat (DelayUnitLen self)),
    Set ''effective index 1'' (VFloat 2.445),
    Set ''group index 1'' (VFloat 4.19),
    Set ''name'' (VStr ''DelayLine_1''),
    Set ''loss 1'' (VFloat (WvgLoss self)),
    Addelement ''Straight Waveguide'',
    Set ''x position'' (VInt 500),
    Set ''y position'' (VInt (-350)),
    Set ''length'' (VFloat (real_of_int (1 + unitsNextTap self) * DelayUnitLen self)),
    Set ''effective index 1'' (VFloat 2.445),
    Set ''group index 1'' (VFloat 4.19),
    Set ''name'' (VStr ''DelayLine_2''),
    Set ''loss 1'' (VFloat (WvgLoss self)),
    Addelement ''Straight Waveguide'',
    Set ''x position'' (VInt 500),
    Set ''y position'' (VInt (-250)),
    Set ''length'' (VFloat (real_of_int (1 + 2 * unitsNextTap self) * DelayUnitLen self)),
    Set ''effective index 1'' (VFloat 2.445),
    Set ''group index 1'' (VFloat 4.19),
    Set ''name'' (VStr ''DelayLine_3''),
    Set ''loss 1'' (VFloat (WvgLoss self)),
    Addelement ''Straight Waveguide'',
    Set ''x position'' (VInt 500),
    Set ''y position'' (VInt (-150)),
    Set ''length'' (VFloat (real_of_int (1 + 3 * unitsNextTap self) * DelayUnitLen self)),
    Set ''effective index 1'' (VFloat 2.445),
    Set ''group index 1'' (VFloat 4.19),
    Set ''name'' (VStr ''DelayLine_4''),
    Set ''loss 1'' (VFloat (WvgLoss self))]"

definition mount_output_cells :: "'a PNN_scheme \<Rightarrow> call list" where
  "mount_output_cells self =
   [Connect ''IDEAL_CELL_2'' ''port 3'' ''DelayLine_1'' ''port 1'',
    Connect ''IDEAL_CELL_2'' ''port 4'' ''DelayLine_2'' ''port 1'',
    Connect ''IDEAL_CELL_3'' ''port 3'' ''DelayLine_3'' ''port 1'',
    Connect ''IDEAL_CELL_3'' ''port 4'' ''DelayLine_4'' ''port 1'',
    Addelement ''MZI Ideal Cell'',
    Set ''x position'' (VInt 675),
    Set ''y position'' (VInt (-600)),
    Set ''Waveguide neff'' (VFloat 2.445),
    Set ''Waveguide ng'' (VFloat 4.19),
    Set ''WvgLoss'' (VFloat (WvgLoss self)),
    Addelement ''MZI Ideal Cell'',
    Set ''x position'' (VInt 675),
    Set ''y position'' (VInt (-400)),
    Set ''Waveguide neff'' (VFloat 2.445),
    Set ''Waveguide ng'' (VFloat 4.19),
    Set ''WvgLoss'' (VFloat (WvgLoss self)),
    Addelement ''MZI Ideal Cell'',
    Set ''x position'' (VInt 675),
    Set ''y position'' (VInt (-200)),
    Set ''Waveguide neff'' (VFloat 2.445),
    Set ''Waveguide ng'' (VFloat 4.19),
    Set ''WvgLoss'' (VFloat (WvgLoss self)),
    Addelement ''MZI Ideal Cell'',
    Set ''x position'' (VInt 675),
    Set ''y position'' (VInt 0),
    Set ''Waveguide neff'' (VFloat 2.445),
    Set ''Waveguide ng'' (VFloat 4.19),
    Set ''WvgLoss'' (VFloat (WvgLoss self)),
    Select ''OOSC_3'',
    Set ''x position'' (VInt 925),
    Set ''y position'' (VInt (-600)),
    Select ''OOSC_4'',
    Set ''x position'' (VInt 925),
    Set ''y position'' (VInt (-400)),
    Select ''OOSC_5'',
    Set ''x position'' (VInt 925),
    Set ''y position'' (VInt (-200)),
    Select ''OOSC_6'',
    Set ''x position'' (VInt 925),
    Set ''y position'' (VInt 0),
    Connect ''DelayLine_1'' ''port 2'' ''IDEAL_CELL_4'' ''port 2'',
    Connect ''DelayLine_2'' ''port 2'' ''IDEAL_CELL_5'' ''port 2'',
    Connect ''DelayLine_3'' ''port 2'' ''IDEAL_CELL_6'' ''port 2'',
    Connect ''DelayLine_4'' ''port 2'' ''IDEAL_CELL_7'' ''port 2'',
    Connect ''IDEAL_CELL_4'' ''port 3'' ''OOSC_3'' ''input'',
    Connect ''IDEAL_CELL_5'' ''port 3'' ''OOSC_4'' ''input'',
    Connect ''IDEAL_CELL_6'' ''port 3'' ''OOSC_5'' ''input'',
    Connect ''IDEAL_CELL_7'' ''port 3'' ''OOSC_6'' ''input'',
    Addelement ''Termination Mirror'',
    Set ''x position'' (VInt 900),
    Set ''y position'' (VInt (-525)),
    Addelement ''Termination Mirror'',
    Set ''x position'' (VInt 900),
    Set ''y position'' (VInt (-325)),
    Addelement ''Termination Mirror'',
    Set ''x position'' (VInt 900),
    Set ''y position'' (VInt (-125)),
    Addelement ''Termination Mirror'',
    Set ''x position'' (VInt 900),
    Set ''y position'' (VInt 75),
    Connect ''IDEAL_CELL_4'' ''port 4'' ''TERM_4'' ''port'',
    Connect ''IDEAL_CELL_5'' ''port 4'' ''TERM_5'' ''port'',
    Connect ''IDEAL_CELL_6'' ''port 4'' ''TERM_6'' ''port'',
    Connect ''IDEAL_CELL_7'' ''port 4'' ''TERM_7'' ''port'']"

text \<open>Output type \<open>disconnected\<close>: the body of the loop over \<open>range(1,self.taps+1)\<close>,
  then the connections and oscilloscopes that follow it.\<close>

definition mount_OutPIN_i :: "'a PNN_scheme \<Rightarrow> int \<Rightarrow> stmt list" where
  "mount_OutPIN_i self i =
     calls
      [Addelement ''PIN Photodetector'',
       Set ''x position'' (VInt 1000),
       Set ''y position'' (VInt (-800 + 200 * i)),
       Set ''name'' (VStr (''OutPIN_'' @ str i)),
       Set ''enable thermal noise'' (TogglePDTNoise self),
       Set ''enable shot noise'' (TogglePDSNoise self),
       Set ''responsivity'' (VFloat (PDResponsivity self)),
       Set ''dark current'' (VFloat (PDDarkCurrent self))]
     @ (if TogglePDTNoise self = VBool True
        then [with_arg (pow2 (PDTNoise self)) (\<lambda>v. Set ''thermal noise'' (VFloat v))]
        else [])"

definition mount_disconnected_wiring :: "call list" where
  "mount_disconnected_wiring =
   [Connect ''IDEAL_CELL_4'' ''port 3'' ''OutPIN_1'' ''input'',
    Connect ''IDEAL_CELL_5'' ''port 3'' ''OutPIN_2'' ''input'',
    Connect ''IDEAL_CELL_6'' ''port 3'' ''OutPIN_3'' ''input'',
    Connect ''IDEAL_CELL_7'' ''port 3'' ''OutPIN_4'' ''input'',
    Addelement ''Oscilloscope'',
    Set ''x position'' (VInt 1125),
    Set ''y position'' (VInt (-600)),
    Addelement ''Oscilloscope'',
    Set ''x position'' (VInt 1125),
    Set ''y position'' (VInt (-400)),
    Addelement ''Oscilloscope'',
    Set ''x position'' (VInt 1125),
    Set ''y position'' (VInt (-200)),
    Addelement ''Oscilloscope'',
    Set ''x position'' (VInt 1125),
    Set ''y position'' (VInt 0),
    Connect ''OutPIN_1'' ''output'' ''OSC_2'' ''input'',
    Connect ''OutPIN_2'' ''output'' ''OSC_3'' ''input'',
    Connect ''OutPIN_3'' ''output'' ''OSC_4'' ''input'',
    Connect ''OutPIN_4'' ''output'' ''OSC_5'' ''input'']"

definition mount_disconnected :: "'a PNN_scheme \<Rightarrow> stmt list" where
  "mount_disconnected self =
     concat (map (mount_OutPIN_i self) (range1 (taps self + 1))) @ calls mount_disconnected_wiring"

text \<open>The other output types: one photodetector behind a combiner, optionally an optical
  filter before it and a noise source after it.\<close>

definition mount_OutPIN :: "'a PNN_scheme \<Rightarrow> int \<Rightarrow> stmt list" where
  "mount_OutPIN self spacement_A =
     calls
   [Addelement ''PIN Photodetector'',
    Set ''x position'' (VInt (1250 + spacement_A)),
    Set ''y position'' (VInt (-300)),
    Set ''name'' (VStr ''OutPIN''),
    Set ''enable thermal noise'' (TogglePDTNoise self),
    Set ''enable shot noise'' (TogglePDSNoise self),
    Set ''responsivity'' (VFloat (PDResponsivity self)),
    Set ''dark current'' (VFloat (PDDarkCurrent self))]
     @ (if TogglePDTNoise self = VBool True
        then [with_arg (pow2 (PDTNoise self)) (\<lambda>v. Set ''thermal noise'' (VFloat v))]
        else [])"

definition mount_combiner :: "int \<Rightarrow> call list" where
  "mount_combiner spacement_A =
   [Addelement ''Oscilloscope'',
    Set ''x position'' (VInt (1400 + spacement_A)),
    Set ''y position'' (VInt (-300)),
    Addelement ''Vector Signal Analyzer'',
    Set ''x position'' (VInt (1400 + spacement_A)),
    Set ''y position'' (VInt 200),
    Set ''name'' (VStr ''Output_VSA''),
    Set ''icon type'' (VStr ''medium''),
    Set ''configuration'' (VStr ''single input''),
    Set ''signal reference input'' (VBool True),
    Set ''symbol map'' (VBool True),
    Set ''calculate statistics'' (VBool True),
    Set ''calculate measurements'' (VBool True),
    Connect ''OutPIN'' ''output'' ''OSC_2'' ''input'',
    Connect ''OutPIN'' ''output'' ''Output_VSA'' ''input I'',
    Connect ''Pulse Generator'' ''output'' ''Output_VSA'' ''reference I'',
    Addelement ''Optical Splitter'',
    Set ''x position'' (VInt (1100 + spacement_A)),
    Set ''y position'' (VInt (-300)),
    Set ''configuration'' (VStr ''combiner''),
    Set ''number of ports'' (VInt 4),
    Set ''split ratio'' (VStr ''none''),
    Flipelement ''SPLT_1'',
    Connect ''IDEAL_CELL_4'' ''port 3'' ''SPLT_1'' ''input 1'',
    Connect ''IDEAL_CELL_5'' ''port 3'' ''SPLT_1'' ''input 2'',
    Connect ''IDEAL_CELL_6'' ''port 3'' ''SPLT_1'' ''input 3'',
    Connect ''IDEAL_CELL_7'' ''port 3'' ''SPLT_1'' ''input 4'']"

text \<open>The filter is left out only when the toggle \<open>is False\<close>.\<close>

definition mount_OptFilter :: "'a PNN_scheme \<Rightarrow> int \<Rightarrow> call list" where
  "mount_OptFilter self spacement_A =
     (if ToggleOptFilter self = VBool False then
   [Connect ''SPLT_1'' ''output'' ''OutPIN'' ''input'']
      else
   [Addelement ''Gaussian Optical Filter'',
    Set ''x position'' (VInt (1200 + spacement_A)),
    Set ''y position'' (VInt (-600)),
    Set ''name'' (VStr ''Optical Filter''),
    Set ''bandwidth'' (VFloat (OptFilterBand self)),
    Connect ''SPLT_1'' ''output'' ''Optical Filter'' ''input'',
    Connect ''Optical Filter'' ''output'' ''OutPIN'' ''input''])"

definition mount_AWGN :: "'a PNN_scheme \<Rightarrow> int \<Rightarrow> call list" where
  "mount_AWGN self spacement_A =
   [Addelement ''Noise Source'',
    Set ''x position'' (VInt (1100 + spacement_A)),
    Set ''y position'' (VInt (-100)),
    Set ''name'' (VStr ''AWGN_source''),
    Set ''power spectral density'' (VFloat (NoisePSD self)),
    Addelement ''LP Gaussian Filter'',
    Set ''x position'' (VInt (1300 + spacement_A)),
    Set ''y position'' (VInt (-100)),
    Set ''name'' (VStr ''AWGN_filter''),
    Addelement ''Electrical Adder'',
    Set ''x position'' (VInt (1500 + spacement_A)),
    Set ''y position'' (VInt (-200)),
    Set ''name'' (VStr ''Output_sum''),
    Addelement ''Oscilloscope'',
    Set ''x position'' (VInt (1600 + spacement_A)),
    Set ''y position'' (VInt (-250)),
    Addelement ''Power Meter'',
    Set ''x position'' (VInt (1600 + spacement_A)),
    Set ''y position'' (VInt (-350)),
    Set ''name'' (VStr ''Signal_Power''),
    Addelement ''Power Meter'',
    Set ''x position'' (VInt (1600 + spacement_A)),
    Set ''y position'' (VInt (-100)),
    Set ''name'' (VStr ''Noise_Power''),
    Connect ''AWGN_source'' ''output'' ''AWGN_filter'' ''input'',
    Connect ''OutPIN'' ''output'' ''Output_sum'' ''input 1'',
    Connect ''OutPIN'' ''output'' ''Signal_Power'' ''input'',
    Connect ''AWGN_filter'' ''output'' ''Output_sum'' ''input 2'',
    Connect ''AWGN_filter'' ''output'' ''Noise_Power'' ''input'',
    Connect ''Output_sum'' ''output'' ''OSC_3'' ''input'']"

definition mount_mixed :: "call list" where
  "mount_mixed =
   [Disconnect ''IDEAL_CELL_4'' ''port 3'' ''SPLT_1'' ''input 1'',
    Disconnect ''IDEAL_CELL_5'' ''port 3'' ''SPLT_1'' ''input 2'',
    Disconnect ''IDEAL_CELL_6'' ''port 3'' ''SPLT_1'' ''input 3'',
    Disconnect ''IDEAL_CELL_7'' ''port 3'' ''SPLT_1'' ''input 4'',
    Addelement ''Optical Splitter'',
    Set ''x position'' (VInt 1025),
    Set ''y position'' (VInt (-600)),
    Set ''configuration'' (VStr ''splitter''),
    Set ''number of ports'' (VInt 2),
    Set ''split ratio'' (VStr ''none''),
    Set ''name'' (VStr ''arm1_splt''),
    Addelement ''Optical Splitter'',
    Set ''x position'' (VInt 1025),
    Set ''y position'' (VInt (-400)),
    Set ''configuration'' (VStr ''splitter''),
    Set ''number of ports'' (VInt 2),
    Set ''split ratio'' (VStr ''none''),
    Set ''name'' (VStr ''arm2_splt''),
    Addelement ''Optical Splitter'',
    Set ''x position'' (VInt 1025),
    Set ''y position'' (VInt (-200)),
    Set ''configuration'' (VStr ''splitter''),
    Set ''number of ports'' (VInt 2),
    Set ''split ratio'' (VStr ''none''),
    Set ''name'' (VStr ''arm3_splt''),
    Addelement ''Optical Splitter'',
    Set ''x position'' (VInt 1025),
    Set ''y position'' (VInt 0),
    Set ''configuration'' (VStr ''splitter''),
    Set ''number of ports'' (VInt 2),
    Set ''split ratio'' (VStr ''none''),
    Set ''name'' (VStr ''arm4_splt''),
    Connect ''IDEAL_CELL_4'' ''port 3'' ''arm1_splt'' ''input'',
    Connect ''IDEAL_CELL_5'' ''port 3'' ''arm2_splt'' ''input'',
    Connect ''IDEAL_CELL_6'' ''port 3'' ''arm3_splt'' ''input'',
    Connect ''IDEAL_CELL_7'' ''port 3'' ''arm4_splt'' ''input'',
    Connect ''arm1_splt'' ''output 2'' ''SPLT_1'' ''input 1'',
    Connect ''arm2_splt'' ''output 2'' ''SPLT_1'' ''input 2'',
    Connect ''arm3_splt'' ''output 2'' ''SPLT_1'' ''input 3'',
    Connect ''arm4_splt'' ''output 2'' ''SPLT_1'' ''input 4'',
    Addelement ''PIN Photodetector'',
    Set ''x position'' (VInt 1175),
    Set ''y position'' (VInt (-600)),
    Set ''enable thermal noise'' (VInt 0),
    Set ''enable shot noise'' (VInt 0),
    Set ''name'' (VStr ''arm1_pin''),
    Addelement ''PIN Photodetector'',
    Set ''x position'' (VInt 1175),
    Set ''y position'' (VInt (-400)),
    Set ''enable thermal noise'' (VInt 0),
    Set ''enable shot noise'' (VInt 0),
    Set ''name'' (VStr ''arm2_pin''),
    Addelement ''PIN Photodetector'',
    Set ''x position'' (VInt 1175),
    Set ''y position'' (VInt (-200)),
    Set ''enable thermal noise'' (VInt 0),
    Set ''enable shot noise'' (VInt 0),
    Set ''name'' (VStr ''arm3_pin''),
    Addelement ''PIN Photodetector'',
    Set ''x position'' (VInt 1175),
    Set ''y position'' (VInt 0),
    Set ''enable thermal noise'' (VInt 0),
    Set ''enable shot noise'' (VInt 0),
    Set ''name'' (VStr ''arm4_pin''),
    Addelement ''Oscilloscope'',
    Set ''x position'' (VInt 1300),
    Set ''y position'' (VInt (-650)),
    Set ''name'' (VStr ''arm1_osc''),
    Addelement ''Oscilloscope'',
    Set ''x position'' (VInt 1300),
    Set ''y position'' (VInt (-450)),
    Set ''name'' (VStr ''arm2_osc''),
    Addelement ''Oscilloscope'',
    Set ''x position'' (VInt 1300),
    Set ''y position'' (VInt (-250)),
    Set ''name'' (VStr ''arm3_osc''),
    Addelement ''Oscilloscope'',
    Set ''x position'' (VInt 1300),
    Set ''y position'' (VInt (-50)),
    Set ''name'' (VStr ''arm4_osc''),
    Connect ''arm1_splt'' ''output 1'' ''arm1_pin'' ''input'',
    Connect ''arm2_splt'' ''output 1'' ''arm2_pin'' ''input'',
    Connect ''arm3_splt'' ''output 1'' ''arm3_pin'' ''input'',
    Connect ''arm4_splt'' ''output 1'' ''arm4_pin'' ''input'',
    Connect ''arm1_pin'' ''output'' ''arm1_osc'' ''input'',
    Connect ''arm2_pin'' ''output'' ''arm2_osc'' ''input'',
    Connect ''arm3_pin'' ''output'' ''arm3_osc'' ''input'',
    Connect ''arm4_pin'' ''output'' ''arm4_osc'' ''input'']"

definition mount_connected :: "'a PNN_scheme \<Rightarrow> int \<Rightarrow> stmt list" where
  "mount_connected self spacement_A =
     mount_OutPIN self spacement_A
     @ calls (mount_combiner spacement_A)
     @ calls (mount_OptFilter self spacement_A)
     @ (if ToggleAWGN self = VBool True then calls (mount_AWGN self spacement_A) else [])
     @ (if OutputType self = ''mixed'' then calls mount_mixed else [])"

definition mount_parallel :: "'a PNN_scheme \<Rightarrow> int \<Rightarrow> stmt list" where
  "mount_parallel self spacement_A =
     calls (mount_tree self) @ calls (mount_delay_lines self) @ calls (mount_output_cells self)
     @ (if OutputType self = ''disconnected'' then mount_disconnected self
        else mount_connected self spacement_A)"

text \<open>The series model.\<close>

definition mount_series :: "'a PNN_scheme \<Rightarrow> call list" where
  "mount_series self =
   [Addelement ''Straight Waveguide'',
    Set ''x position'' (VInt (-125)),
    Set ''y position'' (VInt (-500)),
    Set ''length'' (VFloat (DelayUnitLen self)),
    Set ''effective index 1'' (VFloat 2.445),
    Set ''group index 1'' (VFloat 4.19),
    Addelement ''Straight Waveguide'',
    Set ''x position'' (VInt (-50)),
    Set ''y position'' (VInt (-300)),
    Set ''length'' (VFloat (DelayUnitLen self)),
    Set ''effective index 1'' (VFloat 2.445),
    Set ''group index 1'' (VFloat 4.19),
    Addelement ''Straight Waveguide'',
    Set ''x position'' (VInt 25),
    Set ''y position'' (VInt (-100)),
    Set ''length'' (VFloat (2 * DelayUnitLen self)),
    Set ''effective index 1'' (VFloat 2.445),
    Set ''group index 1'' (VFloat 4.19),
    Addelement ''MZI Ideal Cell'',
    Set ''x position'' (VInt 175),
    Set ''y position'' (VInt (-600)),
    Set ''Waveguide neff'' (VFloat 2.445),
    Set ''Waveguide ng'' (VFloat 4.19),
    Addelement ''MZI Ideal Cell'',
    Set ''x position'' (VInt 175),
    Set ''y position'' (VInt (-400)),
    Set ''Waveguide neff'' (VFloat 2.445),
    Set ''Waveguide ng'' (VFloat 4.19),
    Addelement ''MZI Ideal Cell'',
    Set ''x position'' (VInt 175),
    Set ''y position'' (VInt (-200)),
    Set ''Waveguide neff'' (VFloat 2.445),
    Set ''Waveguide ng'' (VFloat 4.19),
    Addelement ''MZI Ideal Cell'',
    Set ''x position'' (VInt 175),
    Set ''y position'' (VInt 0),
    Set ''Waveguide neff'' (VFloat 2.445),
    Set ''Waveguide ng'' (VFloat 4.19),
    Select ''OOSC_3'',
    Set ''x position'' (VInt 450),
    Set ''y position'' (VInt (-600)),
    Select ''OOSC_4'',
    Set ''x position'' (VInt 450),
    Set ''y position'' (VInt (-400)),
    Select ''OOSC_5'',
    Set ''x position'' (VInt 450),
    Set ''y position'' (VInt (-200)),
    Select ''OOSC_6'',
    Set ''x position'' (VInt 450),
    Set ''y position'' (VInt 0),
    Connect ''IDEAL_CELL_1'' ''port 3'' ''OOSC_3'' ''input'',
    Connect ''IDEAL_CELL_2'' ''port 3'' ''OOSC_4'' ''input'',
    Connect ''IDEAL_CELL_3'' ''port 3'' ''OOSC_5'' ''input'',
    Connect ''IDEAL_CELL_4'' ''port 3'' ''OOSC_6'' ''input'',
    Addelement ''MZI Ideal Cell'',
    Set ''x position'' (VInt (-375)),
    Set ''y position'' (VInt (-600)),
    Set ''Waveguide neff'' (VFloat 2.445),
    Set ''Waveguide ng'' (VFloat 4.19),
    Addelement ''MZI Ideal Cell'',
    Set ''x position'' (VInt (-300)),
    Set ''y position'' (VInt (-400)),
    Set ''Waveguide neff'' (VFloat 2.445),
    Set ''Waveguide ng'' (VFloat 4.19),
    Addelement ''MZI Ideal Cell'',
    Set ''x position'' (VInt (-225)),
    Set ''y position'' (VInt (-200)),
    Set ''Waveguide neff'' (VFloat 2.445),
    Set ''Waveguide ng'' (VFloat 4.19),
    Setnamed ''IDEAL_CELL_5'' ''Theta 1'' (VFloat (1.335 * pi / 4)),
    Setnamed ''IDEAL_CELL_6'' ''Theta 1'' (VFloat (1.57 * pi / 4)),
    Setnamed ''IDEAL_CELL_7'' ''Theta 1'' (VFloat (pi / 2)),
    Connect ''VOA'' ''port 2'' ''IDEAL_CELL_5'' ''port 1'',
    Connect ''IDEAL_CELL_5'' ''port 4'' ''WGD_1'' ''port 1'',
    Connect ''IDEAL_CELL_6'' ''port 4'' ''WGD_2'' ''port 1'',
    Connect ''IDEAL_CELL_7'' ''port 4'' ''WGD_3'' ''port 1'',
    Connect ''IDEAL_CELL_5'' ''port 3'' ''IDEAL_CELL_1'' ''port 2'',
    Connect ''IDEAL_CELL_6'' ''port 3'' ''IDEAL_CELL_2'' ''port 2'',
    Connect ''IDEAL_CELL_7'' ''port 3'' ''IDEAL_CELL_3'' ''port 2'',
    Connect ''WGD_1'' ''port 2'' ''IDEAL_CELL_6'' ''port 1'',
    Connect ''WGD_2'' ''port 2'' ''IDEAL_CELL_7'' ''port 1'',
    Connect ''WGD_3'' ''port 2'' ''IDEAL_CELL_4'' ''port 2'',
    Addelement ''PIN Photodetector'',
    Set ''x position'' (VInt 600),
    Set ''y position'' (VInt (-600)),
    Set ''enable thermal noise'' (VInt 0),
    Set ''enable shot noise'' (VInt 0),
    Addelement ''PIN Photodetector'',
    Set ''x position'' (VInt 600),
    Set ''y position'' (VInt (-400)),
    Set ''enable thermal noise'' (VInt 0),
    Set ''enable shot noise'' (VInt 0),
    Addelement ''PIN Photodetector'',
    Set ''x position'' (VInt 600),
    Set ''y position'' (VInt (-200)),
    Set ''enable thermal noise'' (VInt 0),
    Set ''enable shot noise'' (VInt 0),
    Addelement ''PIN Photodetector'',
    Set ''x position'' (VInt 600),
    Set ''y position'' (VInt 0),
    Set ''enable thermal noise'' (VInt 0),
    Set ''enable shot noise'' (VInt 0),
    Connect ''IDEAL_CELL_1'' ''port 3'' ''PIN_1'' ''input'',
    Connect ''IDEAL_CELL_2'' ''port 3'' ''PIN_2'' ''input'',
    Connect ''IDEAL_CELL_3'' ''port 3'' ''PIN_3'' ''input'',
    Connect ''IDEAL_CELL_4'' ''port 3'' ''PIN_4'' ''input'',
    Addelement ''Oscilloscope'',
    Set ''x position'' (VInt 725),
    Set ''y position'' (VInt (-600)),
    Addelement ''Oscilloscope'',
    Set ''x position'' (VInt 725),
    Set ''y position'' (VInt (-400)),
    Addelement ''Oscilloscope'',
    Set ''x position'' (VInt 725),
    Set ''y position'' (VInt (-200)),
    Addelement ''Oscilloscope'',
    Set ''x position'' (VInt 725),
    Set ''y position'' (VInt 0),
    Connect ''PIN_1'' ''output'' ''OSC_2'' ''input'',
    Connect ''PIN_2'' ''output'' ''OSC_3'' ''input'',
    Connect ''PIN_3'' ''output'' ''OSC_4'' ''input'',
    Connect ''PIN_4'' ''output'' ''OSC_5'' ''input'']"

definition mount_script :: "'a PNN_scheme \<Rightarrow> stmt list" where
  "mount_script self =
     (let spacement_A = 0;
          spacement_A = (if OutputType self = ''mixed'' then spacement_A + 300 else spacement_A)
      in calls (mount_front self)
         @ (if ToggleBitOp self = VBool True then calls mount_BitOp
            else calls [Connect ''PRBS'' ''output'' ''Pulse Generator'' ''modulation''])
         @ calls mount_scopes
         @ (if model self = Some ''parallel'' then mount_parallel self spacement_A
            else if model self = Some ''series'' then calls (mount_series self)
            else []))"

text \<open>Whether the statement that squares \<open>PDTNoise\<close> raises when it is reached.\<close>

definition PDTNoise_raises :: "'a PNN_scheme \<Rightarrow> bool" where
  "PDTNoise_raises self = (TogglePDTNoise self = VBool True \<and> float_overflow ((PDTNoise self) ^ 2))"

text \<open>The calls a run of \<open>mount\<close> issues, and the exception it ends with, if any.\<close>

definition mount_calls :: "'a PNN_scheme \<Rightarrow> call list" where
  "mount_calls self = issued (mount_script self)"

definition mount_raises :: "'a PNN_scheme \<Rightarrow> error option" where
  "mount_raises self = raised (mount_script self)"

definition mount :: "'a PNN_scheme \<Rightarrow> process \<Rightarrow> 'a PNN_scheme \<times> process" where
  "mount self process = (self, process @ mount_calls self)"

section \<open>What a script creates\<close>

text \<open>
  \<open>addelement\<close> adds an element and leaves it selected; \<open>set\<close> assigns a property of the
  selected element, and the property \<open>name\<close> is the element's name.  In both scripts every
  \<open>set\<close> follows an \<open>addelement\<close>, a \<open>select\<close> or another \<open>set\<close>, and \<open>mount\<close> never
  addresses an element it has named through \<open>select\<close> or \<open>setnamed\<close>.  So the elements a
  script creates are read off its calls: each \<open>addelement\<close> with the run of \<open>set\<close> calls
  that follows it.
\<close>

record element =
  etype :: string
  props :: "(string \<times> val) list"

fun sets_after :: "call list \<Rightarrow> (string \<times> val) list" where
  "sets_after (Set p v # cs) = (p, v) # sets_after cs"
| "sets_after _ = []"

fun created :: "call list \<Rightarrow> element list" where
  "created [] = []"
| "created (Addelement t # cs) = \<lparr>etype = t, props = sets_after cs\<rparr> # created cs"
| "created (_ # cs) = created cs"

text \<open>The value a property was given last, and the name among the properties.\<close>

definition prop_of :: "element \<Rightarrow> string \<Rightarrow> val option" where
  "prop_of e p = map_of (rev (props e)) p"

definition name_of :: "element \<Rightarrow> string option" where
  "name_of e = (case prop_of e ''name'' of Some (VStr n) \<Rightarrow> Some n | _ \<Rightarrow> None)"

text \<open>A list of calls that does not begin with a \<open>set\<close>: what precedes it has no
  influence on the elements it creates.\<close>

fun no_Set_first :: "call list \<Rightarrow> bool" where
  "no_Set_first (Set p v # cs) = False"
| "no_Set_first _ = True"

text \<open>The kind and the name of every element a script creates, in order.\<close>

definition inventory :: "call list \<Rightarrow> (string \<times> string option) list" where
  "inventory cs = map (\<lambda>e. (etype e, name_of e)) (created cs)"

text \<open>The \<open>connect\<close> calls of a script whose second end is a given element.\<close>

fun connects_into :: "string \<Rightarrow> call list \<Rightarrow> call list" where
  "connects_into n [] = []"
| "connects_into n (Connect a pa b pb # cs) =
     (if b = n then Connect a pa b pb # connects_into n cs else connects_into n cs)"
| "connects_into n (_ # cs) = connects_into n cs"

section \<open>The validated fields\<close>

text \<open>
  C5, as the code has it.  A model name other than \<open>parallel\<close> and \<open>series\<close> makes the
  constructor and \<open>general\<close> raise \<open>NameError\<close>, and \<open>general\<close> then leaves the instance as it
  was.  A constructor that returns after being given a name has stored one of the two
  variants, and so has \<open>general\<close>.  \<open>general\<close> called without a model (\<open>None\<close>) does not
  raise and keeps the model the instance had.
\<close>

theorem model_validation:
  "(s \<noteq> ''parallel'' \<and> s \<noteq> ''series'' \<longrightarrow>
      PNN_init (Some s) t d u w = Inl (NameError (''model: No model type named '' @ s @ ''. Use parallel or series.''))
    \<and> general (Some s) t' d' u' w' self
          = (self, Some (NameError (''model: No model type named '' @ s @ ''. Use parallel or series.''))))
   \<and> (PNN_init (Some s) t d u w = Inr c \<longrightarrow> model c \<in> {Some ''parallel'', Some ''series''})
   \<and> (snd (general None t' d' u' w' self) = None
        \<and> model (fst (general None t' d' u' w' self)) = model self)
   \<and> (general (Some s) t' d' u' w' self = (self', None) \<longrightarrow> model self' \<in> {Some ''parallel'', Some ''series''})"
  by (auto simp: PNN_init_def general_def Let_def split: option.splits if_splits)

theorem model_validation_witness:
  "PNN_init (Some ''ring'') 4 (100 / 1000000) 1 0
      = Inl (NameError ''model: No model type named ring. Use parallel or series.'')
   \<and> model (projr (PNN_init (Some ''series'') 4 (100 / 1000000) 1 0)) = Some ''series''
   \<and> snd (general (Some ''ring'') None None None None (projr PNN_init_default)) \<noteq> None
   \<and> model (fst (general (Some ''series'') (Some 3) None None None (projr PNN_init_default))) = Some ''series''"
  using model_validation [of "''ring''" 4 "100 / 1000000" 1 0 None None None None "projr PNN_init_default"]
    model_validation [of "''series''" 4 "100 / 1000000" 1 0 "Some 3" None None None "projr PNN_init_default"
       "projr (PNN_init (Some ''series'') 4 (100 / 1000000) 1 0)"
       "fst (general (Some ''series'') (Some 3) None None None (projr PNN_init_default))"]
  by (simp add: PNN_init_def PNN_init_default_def general_def)

text \<open>
  C5 as stated fails at the model argument \<open>None\<close>, which is neither of the two names: the
  constructor returns normally and the instance's model is \<open>None\<close>; \<open>general\<close> returns
  normally too.
\<close>

theorem init_None_counterexample:
  "\<not> isl (PNN_init None 4 (100 / 1000000) 1 0)
   \<and> model (projr (PNN_init None 4 (100 / 1000000) 1 0)) = None
   \<and> snd (general None None None None None (projr PNN_init_default)) = None"
  by (simp add: PNN_init_def PNN_init_default_def general_def)

text \<open>
  C6: \<open>output\<close> called with an output type that is a name other than \<open>connected\<close>,
  \<open>disconnected\<close> and \<open>mixed\<close> raises \<open>NameError\<close> and the instance is as before the call,
  whatever the other four arguments are; with one of the three names, or with \<open>None\<close>, it
  does not raise.
\<close>

theorem output_validation:
  "(ot \<notin> {''connected'', ''disconnected'', ''mixed''} \<longrightarrow>
      output_method (Some ot) a n f b self
        = (self, Some (NameError (''OutputType: No output type named '' @ ot
                                   @ ''. Use connected, disconnected or mixed.''))))
   \<and> (ot \<in> {''connected'', ''disconnected'', ''mixed''} \<longrightarrow> snd (output_method (Some ot) a n f b self) = None)
   \<and> snd (output_method None a n f b self) = None"
  by (auto simp: output_method_def Let_def split: option.splits)

theorem output_validation_witness:
  "output_method (Some ''split'') (Some (VBool True)) (Some 1) (Some (VBool True)) (Some 2) (projr PNN_init_default)
      = (projr PNN_init_default,
         Some (NameError ''OutputType: No output type named split. Use connected, disconnected or mixed.''))
   \<and> snd (output_method (Some ''mixed'') (Some (VBool True)) (Some 1) (Some (VBool True)) (Some 2) (projr PNN_init_default)) = None"
  using output_validation [of "''split''" "Some (VBool True)" "Some 1" "Some (VBool True)" "Some 2" "projr PNN_init_default"]
    output_validation [of "''mixed''" "Some (VBool True)" "Some 1" "Some (VBool True)" "Some 2" "projr PNN_init_default"]
  by simp

section \<open>Reflective access\<close>

text \<open>
  C9: \<open>setAttributes(model=x)\<close> and \<open>setAttributes(OutputType=x)\<close> return without raising for
  every value \<open>x\<close> and the attribute then reads \<open>x\<close>; so when \<open>x\<close> is not one of the
  enumerated names, the instance no longer satisfies the check that \<open>__init__\<close>, \<open>general\<close>
  and \<open>output\<close> enforce, whatever it satisfied before.
\<close>

theorem setAttributes_no_validation:
  "setAttributes [(''model'', x)] self = (self(''model'' \<mapsto> x), None)
   \<and> setAttributes [(''OutputType'', x)] self = (self(''OutputType'' \<mapsto> x), None)
   \<and> find_attr cls (fst (setAttributes [(''model'', x)] self)) ''model'' = Some x
   \<and> find_attr cls (fst (setAttributes [(''OutputType'', x)] self)) ''OutputType'' = Some x
   \<and> (x \<noteq> PStr ''parallel'' \<and> x \<noteq> PStr ''series'' \<longrightarrow>
        \<not> model_valid cls (fst (setAttributes [(''model'', x)] self)))
   \<and> (x \<noteq> PStr ''connected'' \<and> x \<noteq> PStr ''disconnected'' \<and> x \<noteq> PStr ''mixed'' \<longrightarrow>
        \<not> OutputType_valid cls (fst (setAttributes [(''OutputType'', x)] self)))"
  by (simp add: setAttributes_def setattr_def data_descriptors_def find_attr_def model_valid_def
      OutputType_valid_def)

theorem setAttributes_no_validation_witness:
  "model_valid (map_of PNN_class_attrs) [''model'' \<mapsto> PStr ''parallel'', ''taps'' \<mapsto> PInt 4]
   \<and> OutputType_valid (map_of PNN_class_attrs) [''model'' \<mapsto> PStr ''parallel'', ''taps'' \<mapsto> PInt 4]
   \<and> snd (setAttributes [(''model'', PStr ''ring'')] [''model'' \<mapsto> PStr ''parallel'', ''taps'' \<mapsto> PInt 4]) = None
   \<and> \<not> model_valid (map_of PNN_class_attrs)
         (fst (setAttributes [(''model'', PStr ''ring'')] [''model'' \<mapsto> PStr ''parallel'', ''taps'' \<mapsto> PInt 4]))
   \<and> \<not> OutputType_valid (map_of PNN_class_attrs)
         (fst (setAttributes [(''OutputType'', PInt 3)] [''model'' \<mapsto> PStr ''parallel'', ''taps'' \<mapsto> PInt 4]))"
proof -
  define d :: attrs where "d = [''model'' \<mapsto> PStr ''parallel'', ''taps'' \<mapsto> PInt 4]"
  have v: "model_valid (map_of PNN_class_attrs) d" "OutputType_valid (map_of PNN_class_attrs) d"
    by (simp_all add: d_def model_valid_def OutputType_valid_def find_attr_def data_descriptors_def
        PNN_class_attrs_def)
  have 1: "PStr ''ring'' \<noteq> PStr ''parallel'' \<and> PStr ''ring'' \<noteq> PStr ''series''" by simp
  have 2: "PInt 3 \<noteq> PStr ''connected'' \<and> PInt 3 \<noteq> PStr ''disconnected'' \<and> PInt 3 \<noteq> PStr ''mixed''"
    by simp
  note t = setAttributes_no_validation [of "PStr ''ring''" d "map_of PNN_class_attrs"]
  from t have "setAttributes [(''model'', PStr ''ring'')] d = (d(''model'' \<mapsto> PStr ''ring''), None)"
    by blast
  then have A1: "snd (setAttributes [(''model'', PStr ''ring'')] d) = None"
    by (simp only: snd_conv)
  from t 1
  have A2: "\<not> model_valid (map_of PNN_class_attrs) (fst (setAttributes [(''model'', PStr ''ring'')] d))"
    by blast
  from setAttributes_no_validation [of "PInt 3" d "map_of PNN_class_attrs"] 2
  have B: "\<not> OutputType_valid (map_of PNN_class_attrs) (fst (setAttributes [(''OutputType'', PInt 3)] d))"
    by blast
  from v A1 A2 B show ?thesis unfolding d_def by blast
qed

text \<open>
  C10: \<open>getAttributes\<close> returns, without raising, as many values as names were asked; the
  \<open>i\<close>-th is the value of the \<open>i\<close>-th named attribute when the instance has one and \<open>None\<close>
  when it has not.
\<close>

theorem getAttributes_total:
  "length (getAttributes cls names self) = length names
   \<and> (\<forall>i < length names.
        (\<forall>v. find_attr cls self (names ! i) = Some v \<longrightarrow> getAttributes cls names self ! i = v)
      \<and> (find_attr cls self (names ! i) = None \<longrightarrow> getAttributes cls names self ! i = PNone))"
  by (simp add: getAttributes_def getattr_def)

theorem getAttributes_total_witness:
  "getAttributes (map_of PNN_class_attrs) [''taps'', ''nothing'', ''OutputType'']
      [''model'' \<mapsto> PStr ''parallel'', ''taps'' \<mapsto> PInt 4]
     = [PInt 4, PNone, PStr ''connected'']"
proof -
  define d :: attrs where "d = [''model'' \<mapsto> PStr ''parallel'', ''taps'' \<mapsto> PInt 4]"
  define ns where "ns = [''taps'', ''nothing'', ''OutputType'']"
  define r where "r = getAttributes (map_of PNN_class_attrs) ns d"
  have f: "find_attr (map_of PNN_class_attrs) d (ns ! 0) = Some (PInt 4)"
    "find_attr (map_of PNN_class_attrs) d (ns ! 1) = None"
    "find_attr (map_of PNN_class_attrs) d (ns ! 2) = Some (PStr ''connected'')"
    by (simp_all add: d_def ns_def find_attr_def data_descriptors_def PNN_class_attrs_def)
  have n: "length ns = 3" by (simp add: ns_def)
  note t = getAttributes_total [of "map_of PNN_class_attrs" ns d, folded r_def]
  from t n have l: "length r = 3" by simp
  from t n f(1) have 0: "r ! 0 = PInt 4" by auto
  from t n f(2) have 1: "r ! 1 = PNone" by auto
  from t n f(3) have 2: "r ! 2 = PStr ''connected''" by auto
  have "r = [r ! 0, r ! 1, r ! 2]"
    using l by (cases r; simp; (rename_tac a as, case_tac as; simp; (rename_tac b bs, case_tac bs; simp)))
  with 0 1 2 have "r = [PInt 4, PNone, PStr ''connected'']" by simp
  then show ?thesis unfolding r_def ns_def d_def .
qed

section \<open>The scripts leave the instance alone\<close>

text \<open>
  C8: neither \<open>mount\<close> nor \<open>update\<close> assigns to an attribute; the instance after the call is
  the instance before it, field by field.
\<close>

theorem mount_update_frame:
  "fst (mount self process) = self \<and> fst (update self process) = self"
  by (simp add: mount_def update_def)

section \<open>The calls issued by a script\<close>

lemma issued_calls [simp]: "issued (calls cs) = cs"
  by (induction cs) (simp_all add: calls_def)

lemma raised_calls [simp]: "raised (calls cs) = None"
  by (induction cs) (simp_all add: calls_def)

lemma issued_append:
  "issued (xs @ ys) = issued xs @ (if raised xs = None then issued ys else [])"
  by (induction xs rule: issued.induct) simp_all

lemma raised_append:
  "raised (xs @ ys) = (case raised xs of None \<Rightarrow> raised ys | Some e \<Rightarrow> Some e)"
  by (induction xs rule: raised.induct) simp_all

lemma issued_calls_append [simp]: "issued (calls cs @ ss) = cs @ issued ss"
  by (simp add: issued_append)

lemma raised_calls_append [simp]: "raised (calls cs @ ss) = raised ss"
  by (simp add: raised_append)

lemma issued_subset: "c \<in> set (issued ss) \<Longrightarrow> Inr c \<in> set ss"
  by (induction ss rule: issued.induct) auto

lemma with_arg_pow2:
  "with_arg (pow2 x) f = (if float_overflow (x ^ 2) then Inl OverflowError else Inr (f (x ^ 2)))"
  by (simp add: with_arg_def pow2_def)

lemma issued_OutPIN_i:
  "issued (mount_OutPIN_i self i) =
     [Addelement ''PIN Photodetector'',
      Set ''x position'' (VInt 1000),
      Set ''y position'' (VInt (-800 + 200 * i)),
      Set ''name'' (VStr (''OutPIN_'' @ str i)),
      Set ''enable thermal noise'' (TogglePDTNoise self),
      Set ''enable shot noise'' (TogglePDSNoise self),
      Set ''responsivity'' (VFloat (PDResponsivity self)),
      Set ''dark current'' (VFloat (PDDarkCurrent self))]
     @ (if TogglePDTNoise self = VBool True \<and> \<not> float_overflow ((PDTNoise self) ^ 2)
        then [Set ''thermal noise'' (VFloat ((PDTNoise self) ^ 2))] else [])"
  by (simp add: mount_OutPIN_i_def with_arg_pow2)

lemma raised_OutPIN_i:
  "raised (mount_OutPIN_i self i) = (if PDTNoise_raises self then Some OverflowError else None)"
  by (simp add: mount_OutPIN_i_def with_arg_pow2 PDTNoise_raises_def)

lemma issued_OutPIN:
  "issued (mount_OutPIN self sp) =
     [Addelement ''PIN Photodetector'',
      Set ''x position'' (VInt (1250 + sp)),
      Set ''y position'' (VInt (-300)),
      Set ''name'' (VStr ''OutPIN''),
      Set ''enable thermal noise'' (TogglePDTNoise self),
      Set ''enable shot noise'' (TogglePDSNoise self),
      Set ''responsivity'' (VFloat (PDResponsivity self)),
      Set ''dark current'' (VFloat (PDDarkCurrent self))]
     @ (if TogglePDTNoise self = VBool True \<and> \<not> float_overflow ((PDTNoise self) ^ 2)
        then [Set ''thermal noise'' (VFloat ((PDTNoise self) ^ 2))] else [])"
  by (simp add: mount_OutPIN_def with_arg_pow2)

lemma raised_OutPIN:
  "raised (mount_OutPIN self sp) = (if PDTNoise_raises self then Some OverflowError else None)"
  by (simp add: mount_OutPIN_def with_arg_pow2 PDTNoise_raises_def)

lemma range1_taps: "range1 (t + 1) = [1..t]"
  by (simp add: range1_def)

lemma issued_loop:
  assumes "\<not> PDTNoise_raises self"
  shows "issued (concat (map (mount_OutPIN_i self) is) @ ss)
           = concat (map (\<lambda>i. issued (mount_OutPIN_i self i)) is) @ issued ss"
  using assms by (induction "is") (simp_all add: issued_append raised_OutPIN_i)

lemma raised_loop:
  "raised (concat (map (mount_OutPIN_i self) is))
     = (if PDTNoise_raises self \<and> is \<noteq> [] then Some OverflowError else None)"
  by (induction "is") (simp_all add: raised_append raised_OutPIN_i)

text \<open>What the two output blocks issue: everything, or, when the square raises, what
  precedes it.\<close>

lemma issued_disconnected:
  "issued (mount_disconnected self) =
     (if PDTNoise_raises self
      then (if 1 \<le> taps self then issued (mount_OutPIN_i self 1) else mount_disconnected_wiring)
      else concat (map (\<lambda>i. issued (mount_OutPIN_i self i)) [1..taps self]) @ mount_disconnected_wiring)"
proof (cases "PDTNoise_raises self")
  case True
  show ?thesis
  proof (cases "1 \<le> taps self")
    case t: True
    then have "[1..taps self] = 1 # [2..taps self]" by (simp add: upto_rec1)
    then show ?thesis
      using True t
      by (simp add: mount_disconnected_def range1_taps issued_append raised_OutPIN_i)
  next
    case False
    then show ?thesis using True by (simp add: mount_disconnected_def range1_taps)
  qed
next
  case False
  then show ?thesis by (simp add: mount_disconnected_def range1_taps issued_loop)
qed

lemma issued_connected:
  "issued (mount_connected self sp) =
     issued (mount_OutPIN self sp)
     @ (if PDTNoise_raises self then []
        else mount_combiner sp @ mount_OptFilter self sp
             @ (if ToggleAWGN self = VBool True then mount_AWGN self sp else [])
             @ (if OutputType self = ''mixed'' then mount_mixed else []))"
  by (simp add: mount_connected_def issued_append raised_OutPIN)

lemma mount_calls_blocks:
  "mount_calls self =
     mount_front self
     @ (if ToggleBitOp self = VBool True then mount_BitOp
        else [Connect ''PRBS'' ''output'' ''Pulse Generator'' ''modulation''])
     @ mount_scopes
     @ (if model self = Some ''parallel''
        then mount_tree self @ mount_delay_lines self @ mount_output_cells self
             @ (if OutputType self = ''disconnected'' then issued (mount_disconnected self)
                else issued (mount_connected self (if OutputType self = ''mixed'' then 300 else 0)))
        else if model self = Some ''series'' then mount_series self
        else [])"
  by (simp add: mount_calls_def mount_script_def mount_parallel_def)

lemma mount_raises_iff:
  "mount_raises self =
     (if model self = Some ''parallel'' \<and> PDTNoise_raises self
         \<and> (OutputType self \<noteq> ''disconnected'' \<or> 1 \<le> taps self)
      then Some OverflowError else None)"
  by (simp add: mount_raises_def mount_script_def mount_parallel_def mount_disconnected_def
      mount_connected_def raised_append raised_OutPIN raised_loop range1_taps)

section \<open>The elements \<open>mount\<close> creates, block by block\<close>

lemma no_Set_first_append: "no_Set_first xs \<Longrightarrow> no_Set_first ys \<Longrightarrow> no_Set_first (xs @ ys)"
  by (cases xs rule: no_Set_first.cases) auto

lemma sets_after_append: "no_Set_first ys \<Longrightarrow> sets_after (xs @ ys) = sets_after xs"
proof (induction xs)
  case Nil
  then show ?case by (cases ys rule: no_Set_first.cases) auto
next
  case (Cons c xs)
  then show ?case by (cases c) auto
qed

lemma created_append: "no_Set_first ys \<Longrightarrow> created (xs @ ys) = created xs @ created ys"
proof (induction xs)
  case Nil
  show ?case by simp
next
  case (Cons c xs)
  then show ?case by (cases c) (auto simp: sets_after_append)
qed

lemma no_Set_first_concat:
  assumes "\<And>x. no_Set_first (f x)"
  shows "no_Set_first (concat (map f xs))"
  by (induction xs) (auto intro: no_Set_first_append assms)

lemma created_concat:
  assumes "\<And>x. no_Set_first (f x)"
  shows "created (concat (map f xs)) = concat (map (\<lambda>x. created (f x)) xs)"
  by (induction xs) (auto simp: created_append no_Set_first_concat assms)

lemma no_Set_first_blocks:
  "no_Set_first (mount_front self)"
  "no_Set_first mount_BitOp"
  "no_Set_first mount_scopes"
  "no_Set_first (mount_tree self)"
  "no_Set_first (mount_delay_lines self)"
  "no_Set_first (mount_output_cells self)"
  "no_Set_first (issued (mount_OutPIN_i self i))"
  "no_Set_first mount_disconnected_wiring"
  "no_Set_first (issued (mount_OutPIN self sp))"
  "no_Set_first (mount_combiner sp)"
  "no_Set_first (mount_OptFilter self sp)"
  "no_Set_first (mount_AWGN self sp)"
  "no_Set_first mount_mixed"
  "no_Set_first (mount_series self)"
  by (simp_all add: mount_front_def mount_BitOp_def mount_scopes_def mount_tree_def
      mount_delay_lines_def mount_output_cells_def issued_OutPIN_i
      mount_disconnected_wiring_def issued_OutPIN mount_combiner_def mount_OptFilter_def
      mount_AWGN_def mount_mixed_def mount_series_def)

lemma created_disconnected:
  "created (issued (mount_disconnected self)) =
     (if PDTNoise_raises self
      then (if 1 \<le> taps self then created (issued (mount_OutPIN_i self 1))
            else created mount_disconnected_wiring)
      else concat (map (\<lambda>i. created (issued (mount_OutPIN_i self i))) [1..taps self])
           @ created mount_disconnected_wiring)"
  by (simp add: issued_disconnected created_append created_concat no_Set_first_blocks)

lemma created_connected:
  "created (issued (mount_connected self sp)) =
     created (issued (mount_OutPIN self sp))
     @ (if PDTNoise_raises self then []
        else created (mount_combiner sp) @ created (mount_OptFilter self sp)
             @ (if ToggleAWGN self = VBool True then created (mount_AWGN self sp) else [])
             @ (if OutputType self = ''mixed'' then created mount_mixed else []))"
  by (simp add: issued_connected created_append no_Set_first_append no_Set_first_blocks)

lemma no_Set_first_outputs:
  "no_Set_first (issued (mount_disconnected self))"
  "no_Set_first (issued (mount_connected self sp))"
  by (simp_all add: issued_disconnected issued_connected no_Set_first_append
      no_Set_first_concat no_Set_first_blocks)

lemma created_mount_calls:
  "created (mount_calls self)
     = created (mount_front self)
       @ (if ToggleBitOp self = VBool True then created mount_BitOp else [])
       @ created mount_scopes
       @ (if model self = Some ''parallel''
          then created (mount_tree self) @ created (mount_delay_lines self)
               @ created (mount_output_cells self)
               @ (if OutputType self = ''disconnected'' then created (issued (mount_disconnected self))
                  else created (issued (mount_connected self (if OutputType self = ''mixed'' then 300 else 0))))
          else if model self = Some ''series'' then created (mount_series self)
          else [])"
  by (simp add: mount_calls_blocks created_append no_Set_first_append no_Set_first_blocks
      no_Set_first_outputs)

lemmas block_defs = mount_front_def mount_BitOp_def mount_scopes_def mount_tree_def
  mount_delay_lines_def mount_output_cells_def
  mount_disconnected_wiring_def mount_combiner_def mount_OptFilter_def
  mount_AWGN_def mount_mixed_def mount_series_def

lemma inventory_front:
  "inventory (mount_front self) =
     [(''Optical Linear Fiber'', Some ''Fiber''),
      (''Optical Amplifier'', Some ''fiber_AMP''),
      (''Optical Attenuator'', Some ''VOA''),
      (''Mach-Zehnder Modulator'', Some ''MZM''),
      (''CW Laser'', Some ''CWL''),
      (''NRZ Pulse Generator'', Some ''Pulse Generator''),
      (''PRBS Generator'', Some ''PRBS''),
      (''Optical Oscilloscope'', None),
      (''Optical Oscilloscope'', None),
      (''Optical Oscilloscope'', Some ''VOA_OOSC''),
      (''Oscilloscope'', None),
      (''Logic Analyzer'', None)]"
  by (simp add: inventory_def mount_front_def name_of_def prop_of_def)

lemma inventory_BitOp:
  "inventory mount_BitOp =
     [(''Fork 1xN'', None),
      (''Data Delay'', None),
      (''Digital Logic'', None),
      (''Logic Analyzer'', None),
      (''Logic Analyzer'', None),
      (''Logic Analyzer'', None)]"
  by (simp add: inventory_def mount_BitOp_def name_of_def prop_of_def)

lemma inventory_scopes:
  "inventory mount_scopes =
     [(''Optical Oscilloscope'', None),
      (''Optical Oscilloscope'', None),
      (''Optical Oscilloscope'', None),
      (''Optical Oscilloscope'', None)]"
  by (simp add: inventory_def mount_scopes_def name_of_def prop_of_def)

lemma inventory_tree:
  "inventory (mount_tree self) =
     [(''MZI Ideal Cell'', None),
      (''MZI Ideal Cell'', None),
      (''MZI Ideal Cell'', None),
      (''Termination Mirror'', None),
      (''Termination Mirror'', None),
      (''Termination Mirror'', None)]"
  by (simp add: inventory_def mount_tree_def name_of_def prop_of_def)

lemma inventory_delay_lines:
  "inventory (mount_delay_lines self) =
     [(''Straight Waveguide'', Some ''DelayLine_1''),
      (''Straight Waveguide'', Some ''DelayLine_2''),
      (''Straight Waveguide'', Some ''DelayLine_3''),
      (''Straight Waveguide'', Some ''DelayLine_4'')]"
  by (simp add: inventory_def mount_delay_lines_def name_of_def prop_of_def)

lemma inventory_output_cells:
  "inventory (mount_output_cells self) =
     [(''MZI Ideal Cell'', None),
      (''MZI Ideal Cell'', None),
      (''MZI Ideal Cell'', None),
      (''MZI Ideal Cell'', None),
      (''Termination Mirror'', None),
      (''Termination Mirror'', None),
      (''Termination Mirror'', None),
      (''Termination Mirror'', None)]"
  by (simp add: inventory_def mount_output_cells_def name_of_def prop_of_def)

lemma inventory_OutPIN_i:
  "inventory (issued (mount_OutPIN_i self i)) = [(''PIN Photodetector'', Some (''OutPIN_'' @ str i))]"
  by (simp add: inventory_def issued_OutPIN_i name_of_def prop_of_def)

lemma inventory_disconnected_wiring:
  "inventory mount_disconnected_wiring =
     [(''Oscilloscope'', None),
      (''Oscilloscope'', None),
      (''Oscilloscope'', None),
      (''Oscilloscope'', None)]"
  by (simp add: inventory_def mount_disconnected_wiring_def name_of_def prop_of_def)

lemma inventory_OutPIN:
  "inventory (issued (mount_OutPIN self sp)) =
     [(''PIN Photodetector'', Some ''OutPIN'')]"
  by (simp add: inventory_def issued_OutPIN name_of_def prop_of_def)

lemma inventory_combiner:
  "inventory (mount_combiner sp) =
     [(''Oscilloscope'', None),
      (''Vector Signal Analyzer'', Some ''Output_VSA''),
      (''Optical Splitter'', None)]"
  by (simp add: inventory_def mount_combiner_def name_of_def prop_of_def)

lemma inventory_OptFilter:
  "inventory (mount_OptFilter self sp) =
     (if ToggleOptFilter self = VBool False then [] else
     [(''Gaussian Optical Filter'', Some ''Optical Filter'')])"
  by (simp add: inventory_def mount_OptFilter_def name_of_def prop_of_def)

lemma inventory_AWGN:
  "inventory (mount_AWGN self sp) =
     [(''Noise Source'', Some ''AWGN_source''),
      (''LP Gaussian Filter'', Some ''AWGN_filter''),
      (''Electrical Adder'', Some ''Output_sum''),
      (''Oscilloscope'', None),
      (''Power Meter'', Some ''Signal_Power''),
      (''Power Meter'', Some ''Noise_Power'')]"
  by (simp add: inventory_def mount_AWGN_def name_of_def prop_of_def)

lemma inventory_mixed:
  "inventory mount_mixed =
     [(''Optical Splitter'', Some ''arm1_splt''),
      (''Optical Splitter'', Some ''arm2_splt''),
      (''Optical Splitter'', Some ''arm3_splt''),
      (''Optical Splitter'', Some ''arm4_splt''),
      (''PIN Photodetector'', Some ''arm1_pin''),
      (''PIN Photodetector'', Some ''arm2_pin''),
      (''PIN Photodetector'', Some ''arm3_pin''),
      (''PIN Photodetector'', Some ''arm4_pin''),
      (''Oscilloscope'', Some ''arm1_osc''),
      (''Oscilloscope'', Some ''arm2_osc''),
      (''Oscilloscope'', Some ''arm3_osc''),
      (''Oscilloscope'', Some ''arm4_osc'')]"
  by (simp add: inventory_def mount_mixed_def name_of_def prop_of_def)

lemma inventory_series:
  "inventory (mount_series self) =
     [(''Straight Waveguide'', None),
      (''Straight Waveguide'', None),
      (''Straight Waveguide'', None),
      (''MZI Ideal Cell'', None),
      (''MZI Ideal Cell'', None),
      (''MZI Ideal Cell'', None),
      (''MZI Ideal Cell'', None),
      (''MZI Ideal Cell'', None),
      (''MZI Ideal Cell'', None),
      (''MZI Ideal Cell'', None),
      (''PIN Photodetector'', None),
      (''PIN Photodetector'', None),
      (''PIN Photodetector'', None),
      (''PIN Photodetector'', None),
      (''Oscilloscope'', None),
      (''Oscilloscope'', None),
      (''Oscilloscope'', None),
      (''Oscilloscope'', None)]"
  by (simp add: inventory_def mount_series_def name_of_def prop_of_def)

lemma inventory_disconnected:
  "inventory (issued (mount_disconnected self)) =
     (if PDTNoise_raises self
      then (if 1 \<le> taps self then [(''PIN Photodetector'', Some (''OutPIN_'' @ str 1))]
            else inventory mount_disconnected_wiring)
      else map (\<lambda>i. (''PIN Photodetector'', Some (''OutPIN_'' @ str i))) [1..taps self]
           @ inventory mount_disconnected_wiring)"
proof -
  have "concat (map (\<lambda>i. inventory (issued (mount_OutPIN_i self i))) xs)
          = map (\<lambda>i. (''PIN Photodetector'', Some (''OutPIN_'' @ str i))) xs" for xs
    by (induction xs) (simp_all add: inventory_OutPIN_i)
  then show ?thesis
    unfolding inventory_def created_disconnected
    by (simp add: map_concat comp_def inventory_def inventory_OutPIN_i [unfolded inventory_def])
qed

lemma inventory_connected:
  "inventory (issued (mount_connected self sp)) =
     inventory (issued (mount_OutPIN self sp))
     @ (if PDTNoise_raises self then []
        else inventory (mount_combiner sp) @ inventory (mount_OptFilter self sp)
             @ (if ToggleAWGN self = VBool True then inventory (mount_AWGN self sp) else [])
             @ (if OutputType self = ''mixed'' then inventory mount_mixed else []))"
  by (simp add: inventory_def created_connected)

lemma inventory_mount_calls:
  "inventory (mount_calls self)
     = inventory (mount_front self)
       @ (if ToggleBitOp self = VBool True then inventory mount_BitOp else [])
       @ inventory mount_scopes
       @ (if model self = Some ''parallel''
          then inventory (mount_tree self) @ inventory (mount_delay_lines self)
               @ inventory (mount_output_cells self)
               @ (if OutputType self = ''disconnected'' then inventory (issued (mount_disconnected self))
                  else inventory (issued (mount_connected self (if OutputType self = ''mixed'' then 300 else 0))))
          else if model self = Some ''series'' then inventory (mount_series self)
          else [])"
  by (simp add: inventory_def created_mount_calls)

lemmas inventory_blocks = inventory_front inventory_BitOp inventory_scopes inventory_tree
  inventory_delay_lines inventory_output_cells inventory_disconnected
  inventory_disconnected_wiring inventory_connected inventory_OutPIN inventory_combiner
  inventory_OptFilter inventory_AWGN inventory_mixed inventory_series

lemma named_iff: "Some n \<in> snd ` set (inventory cs) \<longleftrightarrow> (\<exists>t. (t, Some n) \<in> set (inventory cs))"
  by force

lemma named_elsewhere:
  "e \<in> set (created cs) \<Longrightarrow> name_of e = Some n \<Longrightarrow> Some n \<notin> snd ` set (inventory cs) \<Longrightarrow> False"
  by (force simp: inventory_def)

lemma typed_elsewhere:
  "e \<in> set (created cs) \<Longrightarrow> etype e = t \<Longrightarrow> t \<notin> fst ` set (inventory cs) \<Longrightarrow> False"
  by (force simp: inventory_def)

lemma str_small: "str 1 = ''1''" "str 2 = ''2''" "str 3 = ''3''" "str 4 = ''4''" "str 5 = ''5''"
  by (simp_all add: str_def str_nat.simps digit_def)

lemma int_1_4: "(i::int) \<in> {1..4} \<longleftrightarrow> i = 1 \<or> i = 2 \<or> i = 3 \<or> i = 4"
  by auto

section \<open>Determinism\<close>





section \<open>Delay-line lengths\<close>

text \<open>An element whose name begins with \<open>DelayLine\<close> comes from the delay-line block of the
  parallel model.\<close>

lemma delay_line_block:
  assumes e: "e \<in> set (created (mount_calls self))"
    and n: "name_of e = Some n" and p: "prefix ''DelayLine'' n"
  shows "model self = Some ''parallel'' \<and> e \<in> set (created (mount_delay_lines self))"
proof -
  have others:
    "Some n \<notin> snd ` set (inventory (mount_front self))"
    "Some n \<notin> snd ` set (inventory mount_BitOp)"
    "Some n \<notin> snd ` set (inventory mount_scopes)"
    "Some n \<notin> snd ` set (inventory (mount_tree self))"
    "Some n \<notin> snd ` set (inventory (mount_output_cells self))"
    "Some n \<notin> snd ` set (inventory (issued (mount_disconnected self)))"
    "Some n \<notin> snd ` set (inventory (issued (mount_connected self 0)))"
    "Some n \<notin> snd ` set (inventory (issued (mount_connected self 300)))"
    "Some n \<notin> snd ` set (inventory (mount_series self))"
    using p
    by (auto simp: inventory_front inventory_BitOp inventory_scopes inventory_tree
        inventory_output_cells inventory_disconnected inventory_disconnected_wiring
        inventory_connected inventory_OutPIN inventory_combiner inventory_OptFilter
        inventory_AWGN inventory_mixed inventory_series split: if_splits)
  have el: "e \<in> set (created cs) \<Longrightarrow> Some n \<notin> snd ` set (inventory cs) \<Longrightarrow> False" for cs
    using named_elsewhere n by blast
  show ?thesis
    using e others
    by (auto simp: created_mount_calls split: if_splits dest: el)
qed

lemma created_delay_lines:
  "created (mount_delay_lines self) =
    [\<lparr>etype = ''Straight Waveguide'',
      props = [(''x position'', VInt 500), (''y position'', VInt (-450)),
               (''length'', VFloat (DelayUnitLen self)),
               (''effective index 1'', VFloat 2.445), (''group index 1'', VFloat 4.19),
               (''name'', VStr ''DelayLine_1''), (''loss 1'', VFloat (WvgLoss self))]\<rparr>,
     \<lparr>etype = ''Straight Waveguide'',
      props = [(''x position'', VInt 500), (''y position'', VInt (-350)),
               (''length'', VFloat (real_of_int (1 + unitsNextTap self) * DelayUnitLen self)),
               (''effective index 1'', VFloat 2.445), (''group index 1'', VFloat 4.19),
               (''name'', VStr ''DelayLine_2''), (''loss 1'', VFloat (WvgLoss self))]\<rparr>,
     \<lparr>etype = ''Straight Waveguide'',
      props = [(''x position'', VInt 500), (''y position'', VInt (-250)),
               (''length'', VFloat (real_of_int (1 + 2 * unitsNextTap self) * DelayUnitLen self)),
               (''effective index 1'', VFloat 2.445), (''group index 1'', VFloat 4.19),
               (''name'', VStr ''DelayLine_3''), (''loss 1'', VFloat (WvgLoss self))]\<rparr>,
     \<lparr>etype = ''Straight Waveguide'',
      props = [(''x position'', VInt 500), (''y position'', VInt (-150)),
               (''length'', VFloat (real_of_int (1 + 3 * unitsNextTap self) * DelayUnitLen self)),
               (''effective index 1'', VFloat 2.445), (''group index 1'', VFloat 4.19),
               (''name'', VStr ''DelayLine_4''), (''loss 1'', VFloat (WvgLoss self))]\<rparr>]"
  by (simp add: mount_delay_lines_def)

lemma delay_lines_in_mount:
  "model self = Some ''parallel'' \<Longrightarrow> set (created (mount_delay_lines self)) \<subseteq> set (created (mount_calls self))"
  by (auto simp: created_mount_calls)

lemma update_Setnamed_OutPIN_i:
  "Inr (Setnamed n p v) \<in> set (update_OutPIN_i self x) \<Longrightarrow> n = ''OutPIN_'' @ str x"
  by (auto simp: update_OutPIN_i_def calls_def with_arg_pow2 split: if_splits)

lemma update_delay_line_calls:
  "model self = Some ''parallel'' \<Longrightarrow>
   set [Setnamed ''DelayLine_1'' ''length'' (VFloat (DelayUnitLen self)),
        Setnamed ''DelayLine_2'' ''length'' (VFloat (real_of_int (1 + unitsNextTap self) * DelayUnitLen self)),
        Setnamed ''DelayLine_3'' ''length'' (VFloat (real_of_int (1 + 2 * unitsNextTap self) * DelayUnitLen self)),
        Setnamed ''DelayLine_4'' ''length'' (VFloat (real_of_int (1 + 3 * unitsNextTap self) * DelayUnitLen self))]
     \<subseteq> set (update_calls self)"
  by (simp add: update_calls_def update_script_def)

lemma update_calls_script: "c \<in> set (update_calls self) \<Longrightarrow> Inr c \<in> set (update_script self)"
  by (simp add: update_calls_def issued_subset)

text \<open>
  C3: in the parallel model, for \<open>i\<close> from 1 to 4, \<open>mount\<close> creates an element named
  \<open>DelayLine_i\<close>, every element it gives that name has the length
  \<open>(1 + (i-1) * unitsNextTap) * DelayUnitLen\<close>, and \<open>update\<close> sets the length of
  \<open>DelayLine_i\<close> to that value and to no other.  In any other model \<open>update\<close> addresses no
  element whose name begins with \<open>DelayLine\<close>.
\<close>

theorem delay_line_lengths:
  "(model self = Some ''parallel'' \<and> i \<in> {1..4} \<longrightarrow>
      (\<exists>e \<in> set (created (mount_calls self)). name_of e = Some (''DelayLine_'' @ str i))
    \<and> (\<forall>e \<in> set (created (mount_calls self)). name_of e = Some (''DelayLine_'' @ str i) \<longrightarrow>
          prop_of e ''length''
            = Some (VFloat (real_of_int (1 + (i - 1) * unitsNextTap self) * DelayUnitLen self)))
    \<and> Setnamed (''DelayLine_'' @ str i) ''length''
          (VFloat (real_of_int (1 + (i - 1) * unitsNextTap self) * DelayUnitLen self))
        \<in> set (update_calls self)
    \<and> (\<forall>v. Setnamed (''DelayLine_'' @ str i) ''length'' v \<in> set (update_calls self) \<longrightarrow>
          v = VFloat (real_of_int (1 + (i - 1) * unitsNextTap self) * DelayUnitLen self)))
   \<and> (model self \<noteq> Some ''parallel'' \<longrightarrow>
        (\<forall>n p v. Setnamed n p v \<in> set (update_calls self) \<longrightarrow> \<not> prefix ''DelayLine'' n))"
proof (intro conjI impI)
  assume a: "model self = Some ''parallel'' \<and> i \<in> {1..4}"
  then have par: "model self = Some ''parallel''" and i: "i = 1 \<or> i = 2 \<or> i = 3 \<or> i = 4"
    using int_1_4 [of i] by blast+
  show "\<exists>e \<in> set (created (mount_calls self)). name_of e = Some (''DelayLine_'' @ str i)"
  proof -
    have "\<exists>e \<in> set (created (mount_delay_lines self)). name_of e = Some (''DelayLine_'' @ str i)"
      using i by (auto simp: created_delay_lines name_of_def prop_of_def str_small)
    then show ?thesis using delay_lines_in_mount [OF par] by blast
  qed
  show "\<forall>e \<in> set (created (mount_calls self)). name_of e = Some (''DelayLine_'' @ str i) \<longrightarrow>
          prop_of e ''length''
            = Some (VFloat (real_of_int (1 + (i - 1) * unitsNextTap self) * DelayUnitLen self))"
  proof (intro ballI impI)
    fix e assume e: "e \<in> set (created (mount_calls self))"
      and n: "name_of e = Some (''DelayLine_'' @ str i)"
    have "e \<in> set (created (mount_delay_lines self))"
      using delay_line_block [OF e n] by simp
    then show "prop_of e ''length''
        = Some (VFloat (real_of_int (1 + (i - 1) * unitsNextTap self) * DelayUnitLen self))"
      using n i by (auto simp: created_delay_lines name_of_def prop_of_def str_small)
  qed
  show "Setnamed (''DelayLine_'' @ str i) ''length''
          (VFloat (real_of_int (1 + (i - 1) * unitsNextTap self) * DelayUnitLen self))
        \<in> set (update_calls self)"
    using update_delay_line_calls [OF par] i by (auto simp: str_small)
  show "\<forall>v. Setnamed (''DelayLine_'' @ str i) ''length'' v \<in> set (update_calls self) \<longrightarrow>
          v = VFloat (real_of_int (1 + (i - 1) * unitsNextTap self) * DelayUnitLen self)"
    using par i
    by (auto simp: update_script_def calls_def with_arg_pow2 str_small split: if_splits
        dest!: update_calls_script update_Setnamed_OutPIN_i)
next
  assume "model self \<noteq> Some ''parallel''"
  then show "\<forall>n p v. Setnamed n p v \<in> set (update_calls self) \<longrightarrow> \<not> prefix ''DelayLine'' n"
    by (auto simp: update_script_def calls_def with_arg_pow2 split: if_splits
        dest!: update_calls_script update_Setnamed_OutPIN_i)
qed

theorem delay_line_lengths_witness:
  "Setnamed ''DelayLine_3'' ''length'' (VFloat (3 / 10000)) \<in> set (update_calls (projr PNN_init_default))
   \<and> prop_of (created (mount_delay_lines (projr PNN_init_default)) ! 2) ''length'' = Some (VFloat (3 / 10000))
   \<and> Setnamed ''DelayLine_3'' ''length'' (VFloat (3 / 10000))
        \<notin> set (update_calls (projr (PNN_init (Some ''series'') 4 (100 / 1000000) 1 0)))"
proof -
  define c where "c = projr PNN_init_default"
  define s where "s = projr (PNN_init (Some ''series'') 4 (100 / 1000000) 1 0)"
  define e where "e = created (mount_delay_lines c) ! 2"
  have c: "model c = Some ''parallel''" "unitsNextTap c = 1" "DelayUnitLen c = 1 / 10000"
    by (simp_all add: c_def PNN_init_default_def PNN_init_def)
  have s: "model s \<noteq> Some ''parallel''"
    by (simp add: s_def PNN_init_def)
  have i: "(3::int) \<in> {1..4}" by simp
  note t = delay_line_lengths [of c 3]
  from t c(1) i
  have "Setnamed (''DelayLine_'' @ str 3) ''length''
          (VFloat (real_of_int (1 + (3 - 1) * unitsNextTap c) * DelayUnitLen c)) \<in> set (update_calls c)"
    by blast
  then have A: "Setnamed ''DelayLine_3'' ''length'' (VFloat (3 / 10000)) \<in> set (update_calls c)"
    by (simp add: c str_small)
  have "e \<in> set (created (mount_delay_lines c))"
    by (simp add: e_def created_delay_lines)
  then have e: "e \<in> set (created (mount_calls c))"
    using delay_lines_in_mount [OF c(1)] by blast
  have n: "name_of e = Some (''DelayLine_'' @ str 3)"
    by (simp add: e_def created_delay_lines name_of_def prop_of_def str_small)
  from t c(1) i e n
  have "prop_of e ''length'' = Some (VFloat (real_of_int (1 + (3 - 1) * unitsNextTap c) * DelayUnitLen c))"
    by blast
  then have E: "prop_of e ''length'' = Some (VFloat (3 / 10000))"
    by (simp add: c)
  from delay_line_lengths [of s] s
  have "\<forall>n p v. Setnamed n p v \<in> set (update_calls s) \<longrightarrow> \<not> prefix ''DelayLine'' n"
    by blast
  then have "Setnamed ''DelayLine_3'' ''length'' (VFloat (3 / 10000)) \<in> set (update_calls s)
      \<longrightarrow> \<not> prefix ''DelayLine'' ''DelayLine_3''"
    by blast
  then have B: "Setnamed ''DelayLine_3'' ''length'' (VFloat (3 / 10000)) \<notin> set (update_calls s)"
    by auto
  from A E B show ?thesis unfolding c_def s_def e_def by blast
qed

section \<open>The tap count\<close>

lemma connects_into_append: "connects_into n (xs @ ys) = connects_into n xs @ connects_into n ys"
  by (induction n xs rule: connects_into.induct) auto

text \<open>
  C2 at \<open>taps = 5\<close> in the parallel model with output type \<open>disconnected\<close>: the loop of \<open>mount\<close>
  creates five photodetectors, \<open>OutPIN_1\<close> to \<open>OutPIN_5\<close>, and \<open>update\<close> addresses all five, but
  there are four delay lines, not one per tap, and no call connects anything to \<open>OutPIN_5\<close>.
\<close>

theorem five_taps_unwired:
  "taps (fst (output_method (Some ''disconnected'') None None None None
               (projr (PNN_init (Some ''parallel'') 5 (100 / 1000000) 1 0)))) = 5
   \<and> filter (\<lambda>x. fst x = ''PIN Photodetector'')
        (inventory (mount_calls (fst (output_method (Some ''disconnected'') None None None None
               (projr (PNN_init (Some ''parallel'') 5 (100 / 1000000) 1 0))))))
       = [(''PIN Photodetector'', Some ''OutPIN_1''), (''PIN Photodetector'', Some ''OutPIN_2''),
          (''PIN Photodetector'', Some ''OutPIN_3''), (''PIN Photodetector'', Some ''OutPIN_4''),
          (''PIN Photodetector'', Some ''OutPIN_5'')]
   \<and> Setnamed ''OutPIN_5'' ''responsivity'' (VFloat 1)
        \<in> set (update_calls (fst (output_method (Some ''disconnected'') None None None None
               (projr (PNN_init (Some ''parallel'') 5 (100 / 1000000) 1 0)))))
   \<and> filter (\<lambda>x. fst x = ''Straight Waveguide'')
        (inventory (mount_calls (fst (output_method (Some ''disconnected'') None None None None
               (projr (PNN_init (Some ''parallel'') 5 (100 / 1000000) 1 0))))))
       = [(''Straight Waveguide'', Some ''DelayLine_1''), (''Straight Waveguide'', Some ''DelayLine_2''),
          (''Straight Waveguide'', Some ''DelayLine_3''), (''Straight Waveguide'', Some ''DelayLine_4'')]
   \<and> connects_into ''OutPIN_5''
        (mount_calls (fst (output_method (Some ''disconnected'') None None None None
               (projr (PNN_init (Some ''parallel'') 5 (100 / 1000000) 1 0))))) = []"
proof -
  define c where "c = fst (output_method (Some ''disconnected'') None None None None
               (projr (PNN_init (Some ''parallel'') 5 (100 / 1000000) 1 0)))"
  have c: "model c = Some ''parallel''" "OutputType c = ''disconnected''"
    "ToggleBitOp c = VBool True" "TogglePDTNoise c = VBool False" "PDResponsivity c = 1"
    and t: "taps c = 5"
    by (simp_all add: c_def output_method_def PNN_init_def)
  have nr: "\<not> PDTNoise_raises c" by (simp add: PDTNoise_raises_def c)
  have u: "[1..taps c] = [1, 2, 3, 4, 5]" by (simp add: t upto.simps)
  have inv: "inventory (mount_calls c) = inventory (mount_front c) @ inventory mount_BitOp
       @ inventory mount_scopes @ inventory (mount_tree c) @ inventory (mount_delay_lines c)
       @ inventory (mount_output_cells c)
       @ map (\<lambda>i. (''PIN Photodetector'', Some (''OutPIN_'' @ str i))) [1, 2, 3, 4, 5]
       @ inventory mount_disconnected_wiring"
    by (simp add: inventory_mount_calls inventory_disconnected c nr u)
  have calls: "mount_calls c = mount_front c @ mount_BitOp @ mount_scopes @ mount_tree c
       @ mount_delay_lines c @ mount_output_cells c
       @ concat (map (\<lambda>i. issued (mount_OutPIN_i c i)) [1, 2, 3, 4, 5]) @ mount_disconnected_wiring"
    by (simp add: mount_calls_blocks issued_disconnected c nr u)
  have 1: "filter (\<lambda>x. fst x = ''PIN Photodetector'') (inventory (mount_calls c))
       = [(''PIN Photodetector'', Some ''OutPIN_1''), (''PIN Photodetector'', Some ''OutPIN_2''),
          (''PIN Photodetector'', Some ''OutPIN_3''), (''PIN Photodetector'', Some ''OutPIN_4''),
          (''PIN Photodetector'', Some ''OutPIN_5'')]"
    unfolding inv by (simp add: inventory_blocks str_small)
  have 2: "Setnamed ''OutPIN_5'' ''responsivity'' (VFloat 1) \<in> set (update_calls c)"
  proof -
    have "issued (concat (map (update_OutPIN_i c) [1, 2, 3, 4, 5]) @ ss)
            = concat (map (\<lambda>i. issued (update_OutPIN_i c i)) [1, 2, 3, 4, 5]) @ issued ss" for ss
      by (simp add: issued_append update_OutPIN_i_def c)
    then show ?thesis
      by (simp add: update_calls_def update_script_def c range1_taps u update_OutPIN_i_def
          str_small)
  qed
  have 3: "filter (\<lambda>x. fst x = ''Straight Waveguide'') (inventory (mount_calls c))
       = [(''Straight Waveguide'', Some ''DelayLine_1''), (''Straight Waveguide'', Some ''DelayLine_2''),
          (''Straight Waveguide'', Some ''DelayLine_3''), (''Straight Waveguide'', Some ''DelayLine_4'')]"
    unfolding inv by (simp add: inventory_blocks)
  have 4: "connects_into ''OutPIN_5'' (mount_calls c) = []"
    unfolding calls connects_into_append
    by (simp add: block_defs issued_OutPIN_i c)
  from t 1 2 3 4 show ?thesis unfolding c_def by blast
qed

text \<open>
  With \<open>taps = 3\<close> the same wiring addresses a photodetector that was never created:
  \<open>mount\<close> connects \<open>IDEAL_CELL_7\<close> to \<open>OutPIN_4\<close>, and no element has that name.
\<close>

theorem three_taps_dangling_connect:
  "Connect ''IDEAL_CELL_7'' ''port 3'' ''OutPIN_4'' ''input''
     \<in> set (mount_calls (fst (output_method (Some ''disconnected'') None None None None
               (projr (PNN_init (Some ''parallel'') 3 (100 / 1000000) 1 0)))))
   \<and> Some ''OutPIN_4''
     \<notin> snd ` set (inventory (mount_calls (fst (output_method (Some ''disconnected'') None None None None
               (projr (PNN_init (Some ''parallel'') 3 (100 / 1000000) 1 0))))))"
proof -
  define c where "c = fst (output_method (Some ''disconnected'') None None None None
               (projr (PNN_init (Some ''parallel'') 3 (100 / 1000000) 1 0)))"
  have c: "model c = Some ''parallel''" "OutputType c = ''disconnected''"
    "ToggleBitOp c = VBool True" "TogglePDTNoise c = VBool False"
    and t: "taps c = 3"
    by (simp_all add: c_def output_method_def PNN_init_def)
  have nr: "\<not> PDTNoise_raises c" by (simp add: PDTNoise_raises_def c)
  have u: "[1..taps c] = [1, 2, 3]" by (simp add: t upto.simps)
  have "Connect ''IDEAL_CELL_7'' ''port 3'' ''OutPIN_4'' ''input'' \<in> set mount_disconnected_wiring"
    by (simp add: mount_disconnected_wiring_def)
  then have 1: "Connect ''IDEAL_CELL_7'' ''port 3'' ''OutPIN_4'' ''input'' \<in> set (mount_calls c)"
    by (simp add: mount_calls_blocks issued_disconnected c nr)
  have 2: "Some ''OutPIN_4'' \<notin> snd ` set (inventory (mount_calls c))"
    unfolding named_iff
    by (auto simp: inventory_mount_calls inventory_blocks c nr u str_small split: if_splits)
  from 1 2 show ?thesis unfolding c_def by blast
qed

section \<open>The noise components\<close>

lemma created_OutPIN_i:
  "created (issued (mount_OutPIN_i self i)) =
     [\<lparr>etype = ''PIN Photodetector'',
       props = [(''x position'', VInt 1000), (''y position'', VInt (-800 + 200 * i)),
                (''name'', VStr (''OutPIN_'' @ str i)),
                (''enable thermal noise'', TogglePDTNoise self),
                (''enable shot noise'', TogglePDSNoise self),
                (''responsivity'', VFloat (PDResponsivity self)),
                (''dark current'', VFloat (PDDarkCurrent self))]
               @ (if TogglePDTNoise self = VBool True \<and> \<not> float_overflow ((PDTNoise self) ^ 2)
                  then [(''thermal noise'', VFloat ((PDTNoise self) ^ 2))] else [])\<rparr>]"
  by (simp add: issued_OutPIN_i)

lemma created_OutPIN:
  "created (issued (mount_OutPIN self sp)) =
     [\<lparr>etype = ''PIN Photodetector'',
       props = [(''x position'', VInt (1250 + sp)), (''y position'', VInt (-300)),
                (''name'', VStr ''OutPIN''),
                (''enable thermal noise'', TogglePDTNoise self),
                (''enable shot noise'', TogglePDSNoise self),
                (''responsivity'', VFloat (PDResponsivity self)),
                (''dark current'', VFloat (PDDarkCurrent self))]
               @ (if TogglePDTNoise self = VBool True \<and> \<not> float_overflow ((PDTNoise self) ^ 2)
                  then [(''thermal noise'', VFloat ((PDTNoise self) ^ 2))] else [])\<rparr>]"
  by (simp add: issued_OutPIN)

lemma mixed_no_thermal_noise:
  "e \<in> set (created mount_mixed) \<Longrightarrow> prop_of e ''thermal noise'' = None"
  by (auto simp: mount_mixed_def prop_of_def)

text \<open>The photodetectors of the parallel model: those of the loop, or \<open>OutPIN\<close> and the four
  detectors of the arms.\<close>

lemma parallel_photodetectors:
  assumes e: "e \<in> set (created (mount_calls self))" and t: "etype e = ''PIN Photodetector''"
    and par: "model self = Some ''parallel''"
  shows "(OutputType self = ''disconnected''
            \<and> (\<exists>i \<in> set [1..taps self]. e \<in> set (created (issued (mount_OutPIN_i self i)))))
       \<or> (OutputType self \<noteq> ''disconnected''
            \<and> (e \<in> set (created (issued (mount_OutPIN self (if OutputType self = ''mixed'' then 300 else 0))))
                 \<or> e \<in> set (created mount_mixed)))"
proof -
  have others:
    "''PIN Photodetector'' \<notin> fst ` set (inventory (mount_front self))"
    "''PIN Photodetector'' \<notin> fst ` set (inventory mount_BitOp)"
    "''PIN Photodetector'' \<notin> fst ` set (inventory mount_scopes)"
    "''PIN Photodetector'' \<notin> fst ` set (inventory (mount_tree self))"
    "''PIN Photodetector'' \<notin> fst ` set (inventory (mount_delay_lines self))"
    "''PIN Photodetector'' \<notin> fst ` set (inventory (mount_output_cells self))"
    "''PIN Photodetector'' \<notin> fst ` set (inventory mount_disconnected_wiring)"
    "''PIN Photodetector'' \<notin> fst ` set (inventory (mount_combiner sp))"
    "''PIN Photodetector'' \<notin> fst ` set (inventory (mount_OptFilter self sp))"
    "''PIN Photodetector'' \<notin> fst ` set (inventory (mount_AWGN self sp))" for sp
    by (simp_all add: inventory_front inventory_BitOp inventory_scopes inventory_tree
        inventory_delay_lines inventory_output_cells inventory_disconnected_wiring
        inventory_combiner inventory_OptFilter inventory_AWGN)
  have el: "e \<in> set (created cs) \<Longrightarrow> ''PIN Photodetector'' \<notin> fst ` set (inventory cs) \<Longrightarrow> False" for cs
    using typed_elsewhere t by blast
  show ?thesis
    using e par
    by (auto simp: created_mount_calls created_disconnected created_connected
        split: if_splits dest: el [OF _ others(1)] el [OF _ others(2)] el [OF _ others(3)]
          el [OF _ others(4)] el [OF _ others(5)] el [OF _ others(6)] el [OF _ others(7)]
          el [OF _ others(8)] el [OF _ others(9)] el [OF _ others(10)])
qed

lemma OutPIN_in_mount:
  "model self = Some ''parallel'' \<Longrightarrow> OutputType self \<noteq> ''disconnected'' \<Longrightarrow>
   set (created (issued (mount_OutPIN self (if OutputType self = ''mixed'' then 300 else 0))))
     \<subseteq> set (created (mount_calls self))"
  by (auto simp: created_mount_calls created_connected)

lemma OutPIN_1_in_mount:
  "model self = Some ''parallel'' \<Longrightarrow> OutputType self = ''disconnected'' \<Longrightarrow> 1 \<le> taps self \<Longrightarrow>
   set (created (issued (mount_OutPIN_i self 1))) \<subseteq> set (created (mount_calls self))"
  by (auto simp: created_mount_calls created_disconnected)

text \<open>
  C4, as the code has it.  In the parallel model with an output type other than
  \<open>disconnected\<close>, when \<open>mount\<close> runs to its end, it creates an element named \<open>AWGN_source\<close>
  exactly when \<open>ToggleAWGN is True\<close>; it creates one named \<open>Optical Filter\<close> when
  \<open>ToggleOptFilter\<close> is \<open>True\<close> and none when it is \<open>False\<close>.  With output type
  \<open>disconnected\<close>, or in another model, it creates neither.  In the parallel model, when the
  output type is not \<open>disconnected\<close> or \<open>taps\<close> is at least 1, and \<open>mount\<close> runs to its end,
  some photodetector gets a \<open>thermal noise\<close> property exactly when \<open>TogglePDTNoise is True\<close>;
  and in the parallel model a photodetector's \<open>thermal noise\<close>, when set, is \<open>PDTNoise\<close>
  squared.
\<close>

theorem noise_components:
  "(model self = Some ''parallel'' \<and> OutputType self \<noteq> ''disconnected'' \<and> mount_raises self = None \<longrightarrow>
      (Some ''AWGN_source'' \<in> snd ` set (inventory (mount_calls self)) \<longleftrightarrow> ToggleAWGN self = VBool True)
    \<and> (ToggleOptFilter self = VBool True \<longrightarrow>
          Some ''Optical Filter'' \<in> snd ` set (inventory (mount_calls self)))
    \<and> (ToggleOptFilter self = VBool False \<longrightarrow>
          Some ''Optical Filter'' \<notin> snd ` set (inventory (mount_calls self))))
   \<and> (model self \<noteq> Some ''parallel'' \<or> OutputType self = ''disconnected'' \<longrightarrow>
      Some ''AWGN_source'' \<notin> snd ` set (inventory (mount_calls self))
    \<and> Some ''Optical Filter'' \<notin> snd ` set (inventory (mount_calls self)))
   \<and> (model self = Some ''parallel'' \<and> (OutputType self \<noteq> ''disconnected'' \<or> 1 \<le> taps self)
        \<and> mount_raises self = None \<longrightarrow>
      ((\<exists>e \<in> set (created (mount_calls self)).
          etype e = ''PIN Photodetector'' \<and> prop_of e ''thermal noise'' \<noteq> None)
        \<longleftrightarrow> TogglePDTNoise self = VBool True))
   \<and> (model self = Some ''parallel'' \<longrightarrow>
      (\<forall>e \<in> set (created (mount_calls self)). \<forall>v.
          etype e = ''PIN Photodetector'' \<and> prop_of e ''thermal noise'' = Some v \<longrightarrow>
          TogglePDTNoise self = VBool True \<and> v = VFloat ((PDTNoise self) ^ 2)))"
proof (intro conjI impI)
  assume a: "model self = Some ''parallel'' \<and> OutputType self \<noteq> ''disconnected'' \<and> mount_raises self = None"
  then have nr: "\<not> PDTNoise_raises self"
    by (auto simp: mount_raises_iff split: if_splits)
  from a nr show "Some ''AWGN_source'' \<in> snd ` set (inventory (mount_calls self)) \<longleftrightarrow> ToggleAWGN self = VBool True"
    unfolding named_iff
    by (auto simp: inventory_mount_calls inventory_blocks split: if_splits)
  {
    assume "ToggleOptFilter self = VBool True"
    with a nr show "Some ''Optical Filter'' \<in> snd ` set (inventory (mount_calls self))"
      unfolding named_iff
      by (auto simp: inventory_mount_calls inventory_blocks split: if_splits)
  }
  {
    assume "ToggleOptFilter self = VBool False"
    with a nr show "Some ''Optical Filter'' \<notin> snd ` set (inventory (mount_calls self))"
      unfolding named_iff
      by (auto simp: inventory_mount_calls inventory_blocks split: if_splits)
  }
next
  assume a: "model self \<noteq> Some ''parallel'' \<or> OutputType self = ''disconnected''"
  then show "Some ''AWGN_source'' \<notin> snd ` set (inventory (mount_calls self))"
    unfolding named_iff
    by (auto simp: inventory_mount_calls inventory_blocks split: if_splits)
  from a show "Some ''Optical Filter'' \<notin> snd ` set (inventory (mount_calls self))"
    unfolding named_iff
    by (auto simp: inventory_mount_calls inventory_blocks split: if_splits)
next
  assume a: "model self = Some ''parallel'' \<and> (OutputType self \<noteq> ''disconnected'' \<or> 1 \<le> taps self)
        \<and> mount_raises self = None"
  then have par: "model self = Some ''parallel''" by simp
  from a have nr: "\<not> PDTNoise_raises self"
    by (auto simp: mount_raises_iff split: if_splits)
  show "(\<exists>e \<in> set (created (mount_calls self)).
          etype e = ''PIN Photodetector'' \<and> prop_of e ''thermal noise'' \<noteq> None)
        \<longleftrightarrow> TogglePDTNoise self = VBool True"
  proof
    assume "\<exists>e \<in> set (created (mount_calls self)).
          etype e = ''PIN Photodetector'' \<and> prop_of e ''thermal noise'' \<noteq> None"
    then obtain e where e: "e \<in> set (created (mount_calls self))" "etype e = ''PIN Photodetector''"
      and v: "prop_of e ''thermal noise'' \<noteq> None" by blast
    from parallel_photodetectors [OF e par] v show "TogglePDTNoise self = VBool True"
      by (auto simp: created_OutPIN_i created_OutPIN prop_of_def split: if_splits
          dest: mixed_no_thermal_noise [unfolded prop_of_def])
  next
    assume T: "TogglePDTNoise self = VBool True"
    with nr have ok: "\<not> float_overflow ((PDTNoise self) ^ 2)"
      by (simp add: PDTNoise_raises_def)
    show "\<exists>e \<in> set (created (mount_calls self)).
          etype e = ''PIN Photodetector'' \<and> prop_of e ''thermal noise'' \<noteq> None"
    proof (cases "OutputType self = ''disconnected''")
      case True
      with a have one: "1 \<le> taps self" by simp
      have "\<exists>e \<in> set (created (issued (mount_OutPIN_i self 1))).
              etype e = ''PIN Photodetector'' \<and> prop_of e ''thermal noise'' \<noteq> None"
        using T ok by (simp add: created_OutPIN_i prop_of_def)
      then show ?thesis using OutPIN_1_in_mount [OF par True one] by blast
    next
      case False
      have "\<exists>e \<in> set (created (issued (mount_OutPIN self (if OutputType self = ''mixed'' then 300 else 0)))).
              etype e = ''PIN Photodetector'' \<and> prop_of e ''thermal noise'' \<noteq> None"
        using T ok by (simp add: created_OutPIN prop_of_def)
      then show ?thesis using OutPIN_in_mount [OF par False] by blast
    qed
  qed
next
  assume par: "model self = Some ''parallel''"
  show "\<forall>e \<in> set (created (mount_calls self)). \<forall>v.
          etype e = ''PIN Photodetector'' \<and> prop_of e ''thermal noise'' = Some v \<longrightarrow>
          TogglePDTNoise self = VBool True \<and> v = VFloat ((PDTNoise self) ^ 2)"
  proof (intro ballI allI impI)
    fix e v assume e: "e \<in> set (created (mount_calls self))"
      and "etype e = ''PIN Photodetector'' \<and> prop_of e ''thermal noise'' = Some v"
    then have t: "etype e = ''PIN Photodetector''" and v: "prop_of e ''thermal noise'' = Some v"
      by simp_all
    from parallel_photodetectors [OF e t par] v
    show "TogglePDTNoise self = VBool True \<and> v = VFloat ((PDTNoise self) ^ 2)"
      by (auto simp: created_OutPIN_i created_OutPIN prop_of_def split: if_splits
          dest: mixed_no_thermal_noise [unfolded prop_of_def])
  qed
qed

theorem noise_components_witness:
  "Some ''AWGN_source''
     \<in> snd ` set (inventory (mount_calls (fst (output_method (Some ''mixed'') (Some (VBool True)) None None None
                                                (projr PNN_init_default)))))
   \<and> Some ''Optical Filter''
     \<notin> snd ` set (inventory (mount_calls (fst (output_method (Some ''mixed'') (Some (VBool True)) None None None
                                                (projr PNN_init_default)))))
   \<and> Some ''AWGN_source''
     \<notin> snd ` set (inventory (mount_calls (projr (PNN_init (Some ''series'') 4 (100 / 1000000) 1 0))))"
proof -
  define c where "c = fst (output_method (Some ''mixed'') (Some (VBool True)) None None None (projr PNN_init_default))"
  define s where "s = projr (PNN_init (Some ''series'') 4 (100 / 1000000) 1 0)"
  have c: "model c = Some ''parallel''" "OutputType c \<noteq> ''disconnected''" "ToggleAWGN c = VBool True"
    "ToggleOptFilter c = VBool False" "TogglePDTNoise c = VBool False"
    by (simp_all add: c_def output_method_def PNN_init_default_def PNN_init_def)
  have r: "mount_raises c = None"
    by (simp add: mount_raises_iff PDTNoise_raises_def c)
  have s: "model s \<noteq> Some ''parallel''"
    by (simp add: s_def PNN_init_def)
  from noise_components [of c] c r noise_components [of s] s
  show ?thesis unfolding c_def s_def by blast
qed

text \<open>
  C4 as stated fails in the parallel model with output type \<open>disconnected\<close>: with
  \<open>ToggleAWGN\<close> and \<open>ToggleOptFilter\<close> both \<open>True\<close>, \<open>mount\<close> creates neither \<open>AWGN_source\<close> nor
  \<open>Optical Filter\<close>.
\<close>

theorem disconnected_noise_counterexample:
  "ToggleAWGN (fst (output_method (Some ''disconnected'') (Some (VBool True)) None (Some (VBool True)) None
                     (projr PNN_init_default))) = VBool True
   \<and> ToggleOptFilter (fst (output_method (Some ''disconnected'') (Some (VBool True)) None (Some (VBool True)) None
                     (projr PNN_init_default))) = VBool True
   \<and> Some ''AWGN_source''
     \<notin> snd ` set (inventory (mount_calls (fst (output_method (Some ''disconnected'') (Some (VBool True)) None
                                                (Some (VBool True)) None (projr PNN_init_default)))))
   \<and> Some ''Optical Filter''
     \<notin> snd ` set (inventory (mount_calls (fst (output_method (Some ''disconnected'') (Some (VBool True)) None
                                                (Some (VBool True)) None (projr PNN_init_default)))))"
proof -
  define c where "c = fst (output_method (Some ''disconnected'') (Some (VBool True)) None (Some (VBool True)) None
                     (projr PNN_init_default))"
  have c: "model c = Some ''parallel''" "OutputType c = ''disconnected''" "ToggleAWGN c = VBool True"
    "ToggleOptFilter c = VBool True"
    by (simp_all add: c_def output_method_def PNN_init_default_def PNN_init_def)
  have "Some ''AWGN_source'' \<notin> snd ` set (inventory (mount_calls c))"
    "Some ''Optical Filter'' \<notin> snd ` set (inventory (mount_calls c))"
    unfolding named_iff
    by (auto simp: inventory_mount_calls inventory_blocks c(1,2) split: if_splits)
  with c(3,4) show ?thesis unfolding c_def by blast
qed

section \<open>\<open>update\<close> against \<open>mount\<close>\<close>

text \<open>
  C1 at the series model with the constructor's other defaults: \<open>update\<close> addresses an element
  named \<open>OutPIN\<close> through \<open>setnamed\<close>, and \<open>mount\<close>, run on the same instance, gives that
  name to no element.
\<close>

theorem update_addresses_missing_OutPIN:
  "Setnamed ''OutPIN'' ''responsivity'' (VFloat 1)
     \<in> set (update_calls (projr (PNN_init (Some ''series'') 4 (100 / 1000000) 1 0)))
   \<and> Some ''OutPIN''
     \<notin> snd ` set (inventory (mount_calls (projr (PNN_init (Some ''series'') 4 (100 / 1000000) 1 0))))"
proof -
  define s where "s = projr (PNN_init (Some ''series'') 4 (100 / 1000000) 1 0)"
  have s: "model s = Some ''series''" "OutputType s = ''connected''" "PDResponsivity s = 1"
    "TogglePDTNoise s = VBool False"
    by (simp_all add: s_def PNN_init_def)
  have 1: "Setnamed ''OutPIN'' ''responsivity'' (VFloat 1) \<in> set (update_calls s)"
    by (simp add: update_calls_def update_script_def s)
  have 2: "Some ''OutPIN'' \<notin> snd ` set (inventory (mount_calls s))"
    unfolding named_iff
    by (auto simp: inventory_mount_calls inventory_blocks s split: if_splits)
  from 1 2 show ?thesis unfolding s_def by blast
qed

end
